theory Spec2Isabelle
  imports Main "HOL-Library.Product_Lexorder" "HOL-Library.Multiset" "HOL-Library.Word"
begin

section \<open>Values of the request and of the store\<close>

text \<open>
  The admin routes of \<^verbatim>\<open>src/routes/admin.js\<close> are modelled as functions from the data
  store to an HTTP status code and the data store after the request. Identifiers of rows
  are opaque, so they are natural numbers; the identifier of the acting user is the string
  that \<^verbatim>\<open>req.user.id\<close> holds. Instants (\<^verbatim>\<open>new Date()\<close>, \<^verbatim>\<open>Date.now()\<close>) are milliseconds since
  the epoch, and every handler reads the clock as the argument \<open>now\<close>. Status values are the
  strings the code writes.
\<close>

type_synonym ident = nat
type_synonym instant = int

record user =
  u_id :: string
  u_role :: string

record report =
  rp_id :: ident
  rp_status :: string
  rp_severity :: int
  rp_upvotes :: int
  rp_isSpam :: bool
  rp_isSensitive :: bool
  rp_isDuplicate :: bool
  rp_duplicateOfId :: "ident option"
  rp_noOfDuplicates :: int
  rp_departmentId :: "ident option"
  rp_createdAt :: instant
  rp_updatedAt :: instant
  rp_closedAt :: "instant option"
  rp_completedAt :: "instant option"

record bid =
  bd_id :: ident
  bd_reportId :: ident
  bd_contractorId :: ident
  bd_proposedCost :: int
  bd_estimatedDays :: int
  bd_status :: string
  bd_acceptedAt :: "instant option"
  bd_acceptedBy :: "string option"
  bd_rejectedAt :: "instant option"

record assignment =
  as_id :: ident
  as_reportId :: ident
  as_contractorId :: ident
  as_assignedById :: string
  as_bidId :: "ident option"
  as_agreedCost :: "int option"
  as_deadlineAt :: "instant option"
  as_status :: string
  as_completedAt :: "instant option"
  as_cancelledAt :: "instant option"
  as_cancelReason :: "string option"

record contractor =
  ct_id :: ident
  ct_isBlocked :: bool
  ct_blockReason :: "string option"
  ct_blockedAt :: "instant option"
  ct_blockedBy :: "string option"
  ct_updatedAt :: instant

record completionProof =
  pf_id :: ident
  pf_assignmentId :: ident
  pf_status :: string
  pf_reviewedAt :: "instant option"
  pf_reviewedBy :: "string option"
  pf_reviewNotes :: "string option"

record reportHistory =
  rh_reportId :: ident
  rh_actorId :: string
  rh_action :: string
  rh_oldStatus :: "string option"
  rh_newStatus :: "string option"
  rh_justification :: "string option"

record adminLog =
  al_adminId :: string
  al_adminRole :: string
  al_entityType :: string
  al_entityId :: ident
  al_actionType :: string
  al_justificationMessage :: "string option"

record moderatorAction =
  ma_moderatorId :: string
  ma_reportId :: ident
  ma_action :: string
  ma_justification :: "string option"

text \<open>
  The store holds one list of rows per Prisma model the handlers touch. A subscription
  row is the pair of a report and a user; \<^verbatim>\<open>report._count.subscriptions\<close> counts the rows of
  a report.
\<close>

record store =
  reports :: "report list"
  bids :: "bid list"
  assignments :: "assignment list"
  contractors :: "contractor list"
  completionProofs :: "completionProof list"
  subscriptions :: "(ident \<times> string) list"
  reportHistories :: "reportHistory list"
  adminLogs :: "adminLog list"
  moderatorActions :: "moderatorAction list"

section \<open>Store operations\<close>

text \<open>\<^verbatim>\<open>findUnique({ where: { id } })\<close>: the row with that identifier, or null.\<close>

definition findReport :: "ident \<Rightarrow> store \<Rightarrow> report option" where
  "findReport i s = find (\<lambda>r. rp_id r = i) (reports s)"

definition findBid :: "ident \<Rightarrow> store \<Rightarrow> bid option" where
  "findBid i s = find (\<lambda>b. bd_id b = i) (bids s)"

definition findAssignment :: "ident \<Rightarrow> store \<Rightarrow> assignment option" where
  "findAssignment i s = find (\<lambda>a. as_id a = i) (assignments s)"

definition findContractor :: "ident \<Rightarrow> store \<Rightarrow> contractor option" where
  "findContractor i s = find (\<lambda>c. ct_id c = i) (contractors s)"

definition findProof :: "ident \<Rightarrow> store \<Rightarrow> completionProof option" where
  "findProof i s = find (\<lambda>p. pf_id p = i) (completionProofs s)"

text \<open>
  \<^verbatim>\<open>update({ where: { id }, data })\<close> changes the row with that identifier and throws when
  there is none (the result \<open>None\<close>); \<^verbatim>\<open>updateMany\<close> changes every row the filter selects and
  never throws.
\<close>

definition updateWhere :: "('a \<Rightarrow> bool) \<Rightarrow> ('a \<Rightarrow> 'a) \<Rightarrow> 'a list \<Rightarrow> 'a list" where
  "updateWhere p f rows = map (\<lambda>r. if p r then f r else r) rows"

definition updateReport :: "ident \<Rightarrow> (report \<Rightarrow> report) \<Rightarrow> store \<Rightarrow> store option" where
  "updateReport i f s =
     (case findReport i s of
        None \<Rightarrow> None
      | Some _ \<Rightarrow> Some (s\<lparr>reports := updateWhere (\<lambda>r. rp_id r = i) f (reports s)\<rparr>))"

definition updateAssignment :: "ident \<Rightarrow> (assignment \<Rightarrow> assignment) \<Rightarrow> store \<Rightarrow> store option" where
  "updateAssignment i f s =
     (case findAssignment i s of
        None \<Rightarrow> None
      | Some _ \<Rightarrow> Some (s\<lparr>assignments := updateWhere (\<lambda>a. as_id a = i) f (assignments s)\<rparr>))"

text \<open>
  The queries use the assignment of a report as a to-one relation
  (\<^verbatim>\<open>where: { assignment: { contractorId: assignedTo } }\<close> and \<^verbatim>\<open>include: { assignment: ... }\<close>
  of \<^verbatim>\<open>GET /reports\<close>): the store keeps at most one assignment row per report, and
  \<^verbatim>\<open>create\<close> throws on a second one. That is the value \<open>True\<close> of the parameter \<open>uniq\<close>. The
  Prisma schema is not among the sources; the value \<open>False\<close> is a store whose \<^verbatim>\<open>create\<close> always
  adds the row. The new row gets an identifier no row has.
\<close>

definition freshId :: "ident list \<Rightarrow> ident" where
  "freshId is = Suc (fold max is 0)"

definition createAssignment :: "bool \<Rightarrow> assignment \<Rightarrow> store \<Rightarrow> store option" where
  "createAssignment uniq a s =
     (if uniq \<and> list_ex (\<lambda>x. as_reportId x = as_reportId a) (assignments s) then None
      else Some (s\<lparr>assignments :=
             assignments s @ [a\<lparr>as_id := freshId (map as_id (assignments s))\<rparr>]\<rparr>))"

section \<open>The justification gate\<close>

text \<open>
  \<^verbatim>\<open>String.prototype.trim\<close> removes white space and line terminators from both ends. A
  string is a list of code units; of the code units below 256 the white space ones are tab,
  line feed, vertical tab, form feed, carriage return, space and no-break space.
\<close>

definition isWhiteSpace :: "char \<Rightarrow> bool" where
  "isWhiteSpace c = (of_char c \<in> {9, 10, 11, 12, 13, 32, 160 :: nat})"

definition trim :: "string \<Rightarrow> string" where
  "trim str = rev (dropWhile isWhiteSpace (rev (dropWhile isWhiteSpace str)))"

text \<open>
  \<^verbatim>\<open>!justification || justification.trim().length < 10\<close>, on a body whose \<^verbatim>\<open>justification\<close> is
  absent or a string: the empty string is falsy.
\<close>

definition justificationRejected :: "string option \<Rightarrow> bool" where
  "justificationRejected j =
     (case j of
        None \<Rightarrow> True
      | Some str \<Rightarrow> str = [] \<or> length (trim str) < 10)"

section \<open>Writing the trails\<close>

text \<open>
  \<^verbatim>\<open>prisma.reportHistory.create\<close>, \<^verbatim>\<open>prisma.adminLog.create\<close> and
  \<^verbatim>\<open>prisma.moderatorAction.create\<close> append one row. Of each row the model keeps the columns
  that name the actor, the entity, the action and the justification; the free-form
  description and metadata are left out.
\<close>

definition createHistory :: "reportHistory \<Rightarrow> store \<Rightarrow> store" where
  "createHistory h s = s\<lparr>reportHistories := reportHistories s @ [h]\<rparr>"

definition createAdminLog :: "adminLog \<Rightarrow> store \<Rightarrow> store" where
  "createAdminLog l s = s\<lparr>adminLogs := adminLogs s @ [l]\<rparr>"

definition createModeratorAction :: "moderatorAction \<Rightarrow> store \<Rightarrow> store" where
  "createModeratorAction m s = s\<lparr>moderatorActions := moderatorActions s @ [m]\<rparr>"

section \<open>The handlers that change the store\<close>

text \<open>
  Every handler returns the HTTP status code of its response and the store it leaves. An
  exception inside the \<^verbatim>\<open>try\<close> block is answered with 500 by the \<^verbatim>\<open>catch\<close>, and the store
  keeps what was written before the exception. A query is modelled by the rows it asks
  for: a row read with its relations (\<^verbatim>\<open>include\<close>) is the row and the lookups of the related
  rows in the store as it was when the row was read. \<^verbatim>\<open>xs.includes(v)\<close> on a body field that may
  be absent is \<open>includesStr\<close>.
\<close>

definition includesStr :: "string list \<Rightarrow> string option \<Rightarrow> bool" where
  "includesStr xs v = (case v of None \<Rightarrow> False | Some x \<Rightarrow> List.member xs x)"

definition validStatuses :: "string list" where
  "validStatuses =
     [''OPEN'', ''DUPLICATE'', ''MERGED'', ''VALIDATED'', ''IN_BIDDING'',
      ''ASSIGNED'', ''IN_PROGRESS'', ''PENDING_CITIZEN_REVIEW'',
      ''COMPLETED'', ''VERIFIED'', ''CLOSED'', ''REJECTED'', ''AUTO_CLOSED'']"

text \<open>\<^verbatim>\<open>PATCH /reports/:id/status\<close>\<close>

definition patchStatus ::
  "user \<Rightarrow> instant \<Rightarrow> ident \<Rightarrow> string option \<Rightarrow> string option \<Rightarrow> store \<Rightarrow> nat \<times> store" where
  "patchStatus u now i status justification s =
     (if justificationRejected justification then (400, s)
      else if \<not> includesStr validStatuses status then (400, s)
      else case status of
        None \<Rightarrow> (400, s)
      | Some st \<Rightarrow>
          (case findReport i s of
             None \<Rightarrow> (404, s)
           | Some existingReport \<Rightarrow>
               (case updateReport i
                       (\<lambda>r. r\<lparr>rp_status := st, rp_updatedAt := now,
                               rp_closedAt := (if st = ''CLOSED'' then Some now else rp_closedAt r)\<rparr>) s of
                  None \<Rightarrow> (500, s)
                | Some s1 \<Rightarrow>
                    (200,
                     createAdminLog
                       \<lparr>al_adminId = u_id u, al_adminRole = u_role u, al_entityType = ''REPORT'',
                        al_entityId = i, al_actionType = ''STATUS_CHANGED'',
                        al_justificationMessage = justification\<rparr>
                       (createHistory
                          \<lparr>rh_reportId = i, rh_actorId = u_id u, rh_action = ''STATUS_CHANGED'',
                           rh_oldStatus = Some (rp_status existingReport), rh_newStatus = Some st,
                           rh_justification = justification\<rparr> s1)))))"

text \<open>
  \<^verbatim>\<open>PATCH /reports/:id/assign\<close>. The assignment is created by a nested write of the update of
  the report, so when the creation throws, nothing is written. \<^verbatim>\<open>deadline\<close> is absent or a
  date, given as its instant.
\<close>

definition patchAssign ::
  "bool \<Rightarrow> user \<Rightarrow> instant \<Rightarrow> ident \<Rightarrow> ident option \<Rightarrow> ident option \<Rightarrow> instant option \<Rightarrow>
   string option \<Rightarrow> store \<Rightarrow> nat \<times> store" where
  "patchAssign uniq u now i contractorId departmentId deadline justification s =
     (if justificationRejected justification then (400, s)
      else case findReport i s of
        None \<Rightarrow> (404, s)
      | Some rep \<Rightarrow>
          (if (case contractorId of None \<Rightarrow> False | Some cid \<Rightarrow> findContractor cid s = None)
           then (404, s)
           else
             (case (case contractorId of
                      None \<Rightarrow> Some s
                    | Some cid \<Rightarrow>
                        createAssignment uniq
                          \<lparr>as_id = 0, as_reportId = i, as_contractorId = cid,
                           as_assignedById = u_id u, as_bidId = None, as_agreedCost = None,
                           as_deadlineAt = deadline, as_status = ''ASSIGNED'',
                           as_completedAt = None, as_cancelledAt = None,
                           as_cancelReason = None\<rparr> s) of
                None \<Rightarrow> (500, s)
              | Some s1 \<Rightarrow>
                  (case updateReport i
                          (\<lambda>r. r\<lparr>rp_status := ''ASSIGNED'',
                                  rp_departmentId :=
                                    (case departmentId of
                                       None \<Rightarrow> rp_departmentId rep
                                     | Some d \<Rightarrow> Some d),
                                  rp_updatedAt := now\<rparr>) s1 of
                     None \<Rightarrow> (500, s)
                   | Some s2 \<Rightarrow>
                       (200,
                        createAdminLog
                          \<lparr>al_adminId = u_id u, al_adminRole = u_role u,
                           al_entityType = ''REPORT'', al_entityId = i,
                           al_actionType = ''ASSIGNED'',
                           al_justificationMessage = justification\<rparr>
                          (createHistory
                             \<lparr>rh_reportId = i, rh_actorId = u_id u,
                              rh_action = ''REPORT_ASSIGNED'',
                              rh_oldStatus = Some (rp_status rep),
                              rh_newStatus = Some ''ASSIGNED'',
                              rh_justification = justification\<rparr> s2))))))"

text \<open>
  \<^verbatim>\<open>POST /reports/:id/moderate\<close>. \<open>updateData\<close> is the object of that name: each field the
  body supplies overrides the column. \<^verbatim>\<open>severity\<close> is absent or a number that is an integer
  of the range of the \<^verbatim>\<open>Int\<close> column it is written to (32 bits, signed); \<^verbatim>\<open>parseInt\<close> of such
  a number is the number, read here by \<open>sint\<close>. A number with a fraction or outside that range
  is not an input of the model.
\<close>

definition validActions :: "string list" where
  "validActions =
     [''FLAG_SPAM'', ''MARK_SENSITIVE'', ''HIDE'', ''APPROVE'',
      ''MARK_DUPLICATE'', ''ESCALATE'', ''REJECT'', ''UNFLAG'']"

definition updateData ::
  "instant \<Rightarrow> string option \<Rightarrow> bool option \<Rightarrow> bool option \<Rightarrow> ident option \<Rightarrow>
   32 word option \<Rightarrow> report \<Rightarrow> report" where
  "updateData now action isSpam isSensitive duplicateOfId severity r =
     (let r1 = r\<lparr>rp_updatedAt := now\<rparr>;
          r2 = (case isSpam of None \<Rightarrow> r1 | Some b \<Rightarrow> r1\<lparr>rp_isSpam := b\<rparr>);
          r3 = (case isSensitive of None \<Rightarrow> r2 | Some b \<Rightarrow> r2\<lparr>rp_isSensitive := b\<rparr>);
          r4 = (if action = Some ''MARK_DUPLICATE'' \<and> duplicateOfId \<noteq> None
                then r3\<lparr>rp_status := ''DUPLICATE'', rp_duplicateOfId := duplicateOfId,
                        rp_isDuplicate := True\<rparr>
                else r3)
      in (case severity of None \<Rightarrow> r4 | Some n \<Rightarrow> r4\<lparr>rp_severity := sint n\<rparr>))"

definition postModerate ::
  "user \<Rightarrow> instant \<Rightarrow> ident \<Rightarrow> string option \<Rightarrow> string option \<Rightarrow> bool option \<Rightarrow> bool option \<Rightarrow>
   ident option \<Rightarrow> 32 word option \<Rightarrow> store \<Rightarrow> nat \<times> store" where
  "postModerate u now i action justification isSpam isSensitive duplicateOfId severity s =
     (if \<not> includesStr validActions action then (400, s)
      else if justificationRejected justification then (400, s)
      else case findReport i s of
        None \<Rightarrow> (404, s)
      | Some rep \<Rightarrow>
          (case updateReport i (updateData now action isSpam isSensitive duplicateOfId severity) s of
             None \<Rightarrow> (500, s)
           | Some s1 \<Rightarrow>
               (200,
                createAdminLog
                  \<lparr>al_adminId = u_id u, al_adminRole = u_role u, al_entityType = ''REPORT'',
                   al_entityId = i, al_actionType = ''APPROVED'',
                   al_justificationMessage = justification\<rparr>
                  (createHistory
                     \<lparr>rh_reportId = i, rh_actorId = u_id u, rh_action = ''MODERATED'',
                      rh_oldStatus = None, rh_newStatus = None,
                      rh_justification = justification\<rparr>
                     (createModeratorAction
                        \<lparr>ma_moderatorId = u_id u, ma_reportId = i,
                         ma_action = (case action of None \<Rightarrow> [] | Some a \<Rightarrow> a),
                         ma_justification = justification\<rparr> s1)))))"

text \<open>\<^verbatim>\<open>PATCH /reports/:id/moderate\<close>, the route that flags a report; its body has a \<^verbatim>\<open>reason\<close>.\<close>

definition flagActions :: "string list" where
  "flagActions = [''FLAG_SPAM'', ''MARK_SENSITIVE'', ''HIDE'', ''APPROVE'']"

definition patchModerate ::
  "user \<Rightarrow> instant \<Rightarrow> ident \<Rightarrow> string option \<Rightarrow> string option \<Rightarrow> bool option \<Rightarrow> bool option \<Rightarrow>
   store \<Rightarrow> nat \<times> store" where
  "patchModerate u now i action reason isSpam isSensitive s =
     (if \<not> includesStr flagActions action then (400, s)
      else case findReport i s of
        None \<Rightarrow> (404, s)
      | Some rep \<Rightarrow>
          (case updateReport i
                  (\<lambda>r. r\<lparr>rp_isSpam := (case isSpam of None \<Rightarrow> rp_isSpam r | Some b \<Rightarrow> b),
                          rp_isSensitive :=
                            (case isSensitive of None \<Rightarrow> rp_isSensitive r | Some b \<Rightarrow> b),
                          rp_updatedAt := now\<rparr>) s of
             None \<Rightarrow> (500, s)
           | Some s1 \<Rightarrow>
               (200,
                createHistory
                  \<lparr>rh_reportId = i, rh_actorId = u_id u, rh_action = ''MODERATED'',
                   rh_oldStatus = None, rh_newStatus = None, rh_justification = reason\<rparr>
                  (createModeratorAction
                     \<lparr>ma_moderatorId = u_id u, ma_reportId = i,
                      ma_action = (case action of None \<Rightarrow> [] | Some a \<Rightarrow> a),
                      ma_justification = reason\<rparr> s1))))"

text \<open>\<^verbatim>\<open>PATCH /reports/:id/escalate\<close>: \<^verbatim>\<open>Math.min(report.severity + 1, 5)\<close>.\<close>

definition patchEscalate ::
  "user \<Rightarrow> instant \<Rightarrow> ident \<Rightarrow> string option \<Rightarrow> store \<Rightarrow> nat \<times> store" where
  "patchEscalate u now i reason s =
     (case findReport i s of
        None \<Rightarrow> (404, s)
      | Some rep \<Rightarrow>
          (case updateReport i
                  (\<lambda>r. r\<lparr>rp_severity := min (rp_severity rep + 1) 5, rp_updatedAt := now\<rparr>) s of
             None \<Rightarrow> (500, s)
           | Some s1 \<Rightarrow>
               (200,
                createHistory
                  \<lparr>rh_reportId = i, rh_actorId = u_id u, rh_action = ''ESCALATED'',
                   rh_oldStatus = None, rh_newStatus = None, rh_justification = reason\<rparr> s1)))"

text \<open>
  The Prisma client validates the arguments of a query before it runs it, and throws when
  one level of the query carries both \<^verbatim>\<open>select\<close> and \<^verbatim>\<open>include\<close>.
\<close>

definition selectionRefused :: "bool \<Rightarrow> bool \<Rightarrow> bool" where
  "selectionRefused withSelect withInclude = (withSelect \<and> withInclude)"

text \<open>
  \<^verbatim>\<open>POST /reports/:id/bid/assign\<close>. The query that reads the bid gives its \<^verbatim>\<open>contractor\<close> both
  a \<^verbatim>\<open>select\<close> and an \<^verbatim>\<open>include\<close>, so the client throws before it reads the bid. What
  follows the query in the source is kept as it is written: the bid read with its contractor
  and its report, the four writes one after another outside any transaction, and the
  history row that reads \<^verbatim>\<open>bid.report.status\<close> and \<^verbatim>\<open>bid.contractor.businessName\<close>.
  \<^verbatim>\<open>deadline\<close> is absent or a date, given as its instant.
\<close>

definition msPerDay :: int where
  "msPerDay = 24 * 60 * 60 * 1000"

definition postBidAssign ::
  "bool \<Rightarrow> user \<Rightarrow> instant \<Rightarrow> ident \<Rightarrow> ident \<Rightarrow> string option \<Rightarrow> instant option \<Rightarrow> store \<Rightarrow>
   nat \<times> store" where
  "postBidAssign uniq u now i bidId justification deadline s =
     (if justificationRejected justification then (400, s)
      else if selectionRefused True True then (500, s)
      else case findBid bidId s of
        None \<Rightarrow> (404, s)
      | Some b \<Rightarrow>
          (if bd_reportId b \<noteq> i then (400, s)
           else
             (let s1 = s\<lparr>bids :=
                          updateWhere (\<lambda>x. bd_id x = bidId)
                            (\<lambda>x. x\<lparr>bd_status := ''ACCEPTED'', bd_acceptedAt := Some now,
                                    bd_acceptedBy := Some (u_id u)\<rparr>) (bids s)\<rparr>
              in case createAssignment uniq
                        \<lparr>as_id = 0, as_reportId = i, as_contractorId = bd_contractorId b,
                         as_assignedById = u_id u, as_bidId = Some bidId,
                         as_agreedCost = Some (bd_proposedCost b),
                         as_deadlineAt =
                           (case deadline of
                              Some d \<Rightarrow> Some d
                            | None \<Rightarrow> Some (now + bd_estimatedDays b * msPerDay)),
                         as_status = ''ASSIGNED'', as_completedAt = None,
                         as_cancelledAt = None, as_cancelReason = None\<rparr> s1 of
                   None \<Rightarrow> (500, s1)
                 | Some s2 \<Rightarrow>
                     (case updateReport i
                             (\<lambda>r. r\<lparr>rp_status := ''ASSIGNED'', rp_updatedAt := now\<rparr>) s2 of
                        None \<Rightarrow> (500, s2)
                      | Some s3 \<Rightarrow>
                          (let s4 = s3\<lparr>bids :=
                                       updateWhere
                                         (\<lambda>x. bd_reportId x = i \<and> bd_id x \<noteq> bidId)
                                         (\<lambda>x. x\<lparr>bd_status := ''REJECTED'',
                                                 bd_rejectedAt := Some now\<rparr>) (bids s3)\<rparr>
                           in case (findReport i s, findContractor (bd_contractorId b) s) of
                                (Some rep, Some c) \<Rightarrow>
                                  (200,
                                   createAdminLog
                                     \<lparr>al_adminId = u_id u, al_adminRole = u_role u,
                                      al_entityType = ''BID'', al_entityId = bidId,
                                      al_actionType = ''ASSIGNED'',
                                      al_justificationMessage = justification\<rparr>
                                     (createHistory
                                        \<lparr>rh_reportId = i, rh_actorId = u_id u,
                                         rh_action = ''BID_ASSIGNED'',
                                         rh_oldStatus = Some (rp_status rep),
                                         rh_newStatus = Some ''ASSIGNED'',
                                         rh_justification = justification\<rparr> s4))
                              | _ \<Rightarrow> (500, s4))))))"

text \<open>\<^verbatim>\<open>PATCH /contractors/:id/block\<close>, with \<^verbatim>\<open>isBlocked\<close> a boolean.\<close>

definition patchContractorBlock ::
  "user \<Rightarrow> instant \<Rightarrow> ident \<Rightarrow> bool \<Rightarrow> string option \<Rightarrow> store \<Rightarrow> nat \<times> store" where
  "patchContractorBlock u now i isBlocked justification s =
     (if justificationRejected justification then (400, s)
      else case findContractor i s of
        None \<Rightarrow> (404, s)
      | Some c \<Rightarrow>
          (let s1 = s\<lparr>contractors :=
                       updateWhere (\<lambda>x. ct_id x = i)
                         (\<lambda>x. x\<lparr>ct_isBlocked := isBlocked,
                                 ct_blockReason := (if isBlocked then justification else None),
                                 ct_blockedAt := (if isBlocked then Some now else None),
                                 ct_blockedBy := (if isBlocked then Some (u_id u) else None),
                                 ct_updatedAt := now\<rparr>) (contractors s)\<rparr>;
               s2 = (if isBlocked
                     then s1\<lparr>assignments :=
                              updateWhere
                                (\<lambda>a. as_contractorId a = i \<and>
                                     List.member [''ASSIGNED'', ''IN_PROGRESS''] (as_status a))
                                (\<lambda>a. a\<lparr>as_status := ''CANCELLED'', as_cancelledAt := Some now,
                                        as_cancelReason := Some ''Contractor blocked by admin''\<rparr>)
                                (assignments s1)\<rparr>
                     else s1)
           in (200,
               createAdminLog
                 \<lparr>al_adminId = u_id u, al_adminRole = u_role u, al_entityType = ''CONTRACTOR'',
                  al_entityId = i,
                  al_actionType = (if isBlocked then ''BLOCKED'' else ''UNBLOCKED''),
                  al_justificationMessage = justification\<rparr> s2)))"

text \<open>
  \<^verbatim>\<open>PATCH /proofs/:id/approve\<close>, with \<^verbatim>\<open>isApproved\<close> a boolean. The proof is read with its
  assignment, and the assignment with its report and contractor; \<^verbatim>\<open>proof.assignment.report.id\<close>
  and \<^verbatim>\<open>proof.assignment.contractor.businessName\<close> throw when one of them is null.
\<close>

definition patchProofApprove ::
  "user \<Rightarrow> instant \<Rightarrow> ident \<Rightarrow> bool \<Rightarrow> string option \<Rightarrow> store \<Rightarrow> nat \<times> store" where
  "patchProofApprove u now i isApproved justification s =
     (if justificationRejected justification then (400, s)
      else case findProof i s of
        None \<Rightarrow> (404, s)
      | Some p \<Rightarrow>
          (let s1 = s\<lparr>completionProofs :=
                       updateWhere (\<lambda>x. pf_id x = i)
                         (\<lambda>x. x\<lparr>pf_status := (if isApproved then ''APPROVED'' else ''REJECTED''),
                                 pf_reviewedAt := Some now, pf_reviewedBy := Some (u_id u),
                                 pf_reviewNotes := justification\<rparr>) (completionProofs s)\<rparr>;
               asg = findAssignment (pf_assignmentId p) s;
               rep = (case asg of None \<Rightarrow> None | Some a \<Rightarrow> findReport (as_reportId a) s);
               con = (case asg of None \<Rightarrow> None | Some a \<Rightarrow> findContractor (as_contractorId a) s)
           in case (if isApproved
                    then (case updateAssignment (pf_assignmentId p)
                                 (\<lambda>a. a\<lparr>as_status := ''COMPLETED'', as_completedAt := Some now\<rparr>) s1 of
                            None \<Rightarrow> Inl s1
                          | Some s2 \<Rightarrow>
                              (case rep of
                                 None \<Rightarrow> Inl s2
                               | Some r \<Rightarrow>
                                   (case updateReport (rp_id r)
                                           (\<lambda>x. x\<lparr>rp_status := ''COMPLETED'',
                                                   rp_completedAt := Some now,
                                                   rp_updatedAt := now\<rparr>) s2 of
                                      None \<Rightarrow> Inl s2
                                    | Some s3 \<Rightarrow> Inr s3)))
                    else Inr s1) of
                Inl failed \<Rightarrow> (500, failed)
              | Inr s4 \<Rightarrow>
                  (case (rep, con) of
                     (Some r, Some c) \<Rightarrow>
                       (200,
                        createAdminLog
                          \<lparr>al_adminId = u_id u, al_adminRole = u_role u,
                           al_entityType = ''PROOF'', al_entityId = i,
                           al_actionType = (if isApproved then ''APPROVED'' else ''REJECTED''),
                           al_justificationMessage = justification\<rparr>
                          (createHistory
                             \<lparr>rh_reportId = rp_id r, rh_actorId = u_id u,
                              rh_action =
                                (if isApproved then ''PROOF_APPROVED'' else ''PROOF_REJECTED''),
                              rh_oldStatus = None, rh_newStatus = None,
                              rh_justification = justification\<rparr> s4))
                   | _ \<Rightarrow> (500, s4))))"

section \<open>The router\<close>

text \<open>
  \<^verbatim>\<open>authenticate(requiredRoles)\<close> of \<^verbatim>\<open>src/utils/auth.js\<close> answers 403 when the role of
  the user is not among the roles of the route (\<^verbatim>\<open>hasRequiredRole\<close>), and calls the handler
  otherwise. A request is the route with its path parameter and the fields of its body.
\<close>

definition hasRequiredRole :: "string \<Rightarrow> string list \<Rightarrow> bool" where
  "hasRequiredRole userRole requiredRoles =
     (if length requiredRoles = 0 then True else List.member requiredRoles userRole)"

datatype request =
    PatchStatus ident "string option" "string option"
  | PatchAssign ident "ident option" "ident option" "instant option" "string option"
  | PostModerate ident "string option" "string option" "bool option" "bool option"
      "ident option" "32 word option"
  | PatchModerate ident "string option" "string option" "bool option" "bool option"
  | PatchEscalate ident "string option"
  | PostBidAssign ident ident "string option" "instant option"
  | PatchContractorBlock ident bool "string option"
  | PatchProofApprove ident bool "string option"

fun requiredRoles :: "request \<Rightarrow> string list" where
  "requiredRoles (PatchContractorBlock _ _ _) = [''ADMIN'', ''SUPERADMIN'']"
| "requiredRoles _ = [''ADMIN'', ''MODERATOR'']"

fun handler :: "bool \<Rightarrow> user \<Rightarrow> instant \<Rightarrow> request \<Rightarrow> store \<Rightarrow> nat \<times> store" where
  "handler uniq u now (PatchStatus i status justification) s =
     patchStatus u now i status justification s"
| "handler uniq u now (PatchAssign i contractorId departmentId deadline justification) s =
     patchAssign uniq u now i contractorId departmentId deadline justification s"
| "handler uniq u now (PostModerate i action justification isSpam isSensitive duplicateOfId severity) s =
     postModerate u now i action justification isSpam isSensitive duplicateOfId severity s"
| "handler uniq u now (PatchModerate i action reason isSpam isSensitive) s =
     patchModerate u now i action reason isSpam isSensitive s"
| "handler uniq u now (PatchEscalate i reason) s = patchEscalate u now i reason s"
| "handler uniq u now (PostBidAssign i bidId justification deadline) s =
     postBidAssign uniq u now i bidId justification deadline s"
| "handler uniq u now (PatchContractorBlock i isBlocked justification) s =
     patchContractorBlock u now i isBlocked justification s"
| "handler uniq u now (PatchProofApprove i isApproved justification) s =
     patchProofApprove u now i isApproved justification s"

definition route :: "bool \<Rightarrow> user \<Rightarrow> instant \<Rightarrow> request \<Rightarrow> store \<Rightarrow> nat \<times> store" where
  "route uniq u now req s =
     (if hasRequiredRole (u_role u) (requiredRoles req) then handler uniq u now req s
      else (403, s))"

section \<open>The handlers that read\<close>

text \<open>
  \<^verbatim>\<open>(report.severity * 20) + (report.upvotes * 2) + (report._count.subscriptions * 5)\<close>, the
  expression of both \<^verbatim>\<open>GET /reports\<close> and \<^verbatim>\<open>GET /reports/:id\<close>.
\<close>

definition countSubscriptions :: "ident \<Rightarrow> store \<Rightarrow> int" where
  "countSubscriptions i s = int (length (filter (\<lambda>x. fst x = i) (subscriptions s)))"

definition priorityScore :: "report \<Rightarrow> store \<Rightarrow> int" where
  "priorityScore r s =
     (rp_severity r * 20) + (rp_upvotes r * 2) + (countSubscriptions (rp_id r) s * 5)"

text \<open>
  \<^verbatim>\<open>GET /reports\<close>. The \<^verbatim>\<open>where\<close> clause built from the query is the predicate \<open>wh\<close>. With
  \<^verbatim>\<open>sortBy = 'priorityScore'\<close> the rows are ordered by the list
  \<^verbatim>\<open>[{severity:'desc'}, {upvotes:'desc'}, {createdAt:'desc'}]\<close>, which is the ascending order of
  the key \<open>orderByKey\<close> under the lexicographic order of triples; with another \<^verbatim>\<open>sortBy\<close> the
  store orders by that column, the parameter \<open>byColumn\<close>. \<^verbatim>\<open>skip\<close> is
  \<^verbatim>\<open>(page - 1) * limit\<close>, which the store refuses when it is negative. Of the response the
  model keeps the rows, each paired with its priority score; the counts, the pagination
  block and the raw query for the distinct statuses are left out.
\<close>

definition orderByKey :: "report \<Rightarrow> int \<times> int \<times> int" where
  "orderByKey r = (- rp_severity r, - rp_upvotes r, - rp_createdAt r)"

definition getReports ::
  "(report \<Rightarrow> bool) \<Rightarrow> (string \<Rightarrow> string \<Rightarrow> report list \<Rightarrow> report list) \<Rightarrow> string \<Rightarrow> string \<Rightarrow>
   nat \<Rightarrow> nat \<Rightarrow> store \<Rightarrow> (nat \<times> (report \<times> int) list) \<times> store" where
  "getReports wh byColumn sortBy sortOrder page limit s =
     (if page = 0 \<and> 0 < limit then ((500, []), s)
      else
        (let matching = filter wh (reports s);
             ordered = (if sortBy = ''priorityScore'' then sort_key orderByKey matching
                        else byColumn sortBy sortOrder matching);
             rows = take limit (drop ((page - 1) * limit) ordered)
         in ((200, map (\<lambda>r. (r, priorityScore r s)) rows), s)))"

text \<open>
  \<^verbatim>\<open>GET /reports/:id\<close>: of the metrics, the priority score and the whole days since the
  creation of the report.
\<close>

definition getReport :: "instant \<Rightarrow> ident \<Rightarrow> store \<Rightarrow> (nat \<times> (int \<times> int) option) \<times> store" where
  "getReport now i s =
     (case findReport i s of
        None \<Rightarrow> ((404, None), s)
      | Some r \<Rightarrow> ((200, Some (priorityScore r s, (now - rp_createdAt r) div msPerDay)), s))"

section \<open>Properties of the listing and of the store\<close>

text \<open>
  The order by severity descending, then upvotes descending, then creation time
  descending.
\<close>

definition priorityOrder :: "report \<Rightarrow> report \<Rightarrow> bool" where
  "priorityOrder a b =
     (rp_severity b < rp_severity a \<or>
      (rp_severity a = rp_severity b \<and>
       (rp_upvotes b < rp_upvotes a \<or>
        (rp_upvotes a = rp_upvotes b \<and> rp_createdAt b \<le> rp_createdAt a))))"

text \<open>An assignment is active when it is neither cancelled nor completed.\<close>

definition activeAssignment :: "assignment \<Rightarrow> bool" where
  "activeAssignment a = (as_status a \<noteq> ''CANCELLED'' \<and> as_status a \<noteq> ''COMPLETED'')"

definition activeFor :: "ident \<Rightarrow> store \<Rightarrow> assignment list" where
  "activeFor i s = filter (\<lambda>a. as_reportId a = i \<and> activeAssignment a) (assignments s)"

definition oneActivePerReport :: "store \<Rightarrow> bool" where
  "oneActivePerReport s = list_all (\<lambda>a. length (activeFor (as_reportId a) s) \<le> 1) (assignments s)"

text \<open>The range of the severity of a report.\<close>

definition severityInRange :: "report \<Rightarrow> bool" where
  "severityInRange r = (1 \<le> rp_severity r \<and> rp_severity r \<le> 5)"

section \<open>A small store to run the handlers on\<close>

text \<open>
  Three reports, of which the first has severity 4, three upvotes and two subscribers, the
  second severity 5 and neither upvotes nor subscribers, the third severity 4, fifty upvotes
  and three subscribers; three pending bids, two of them on the first report; two
  contractors; one assignment in progress, of contractor 7 on report 2, with a pending
  completion proof.
\<close>

definition adminUser :: user where
  "adminUser = \<lparr>u_id = ''admin'', u_role = ''ADMIN''\<rparr>"

definition mkReport :: "ident \<Rightarrow> int \<Rightarrow> int \<Rightarrow> instant \<Rightarrow> report" where
  "mkReport i severity upvotes createdAt =
     \<lparr>rp_id = i, rp_status = ''OPEN'', rp_severity = severity, rp_upvotes = upvotes,
      rp_isSpam = False, rp_isSensitive = False, rp_isDuplicate = False,
      rp_duplicateOfId = None, rp_noOfDuplicates = 0, rp_departmentId = None,
      rp_createdAt = createdAt, rp_updatedAt = createdAt, rp_closedAt = None,
      rp_completedAt = None\<rparr>"

definition mkBid :: "ident \<Rightarrow> ident \<Rightarrow> ident \<Rightarrow> int \<Rightarrow> int \<Rightarrow> bid" where
  "mkBid i reportId contractorId proposedCost estimatedDays =
     \<lparr>bd_id = i, bd_reportId = reportId, bd_contractorId = contractorId,
      bd_proposedCost = proposedCost, bd_estimatedDays = estimatedDays,
      bd_status = ''PENDING'', bd_acceptedAt = None, bd_acceptedBy = None,
      bd_rejectedAt = None\<rparr>"

definition mkContractor :: "ident \<Rightarrow> contractor" where
  "mkContractor i =
     \<lparr>ct_id = i, ct_isBlocked = False, ct_blockReason = None, ct_blockedAt = None,
      ct_blockedBy = None, ct_updatedAt = 0\<rparr>"

definition assignmentInProgress :: assignment where
  "assignmentInProgress =
     \<lparr>as_id = 100, as_reportId = 2, as_contractorId = 7, as_assignedById = ''admin'',
      as_bidId = None, as_agreedCost = None, as_deadlineAt = None,
      as_status = ''IN_PROGRESS'', as_completedAt = None, as_cancelledAt = None,
      as_cancelReason = None\<rparr>"

definition pendingProof :: completionProof where
  "pendingProof =
     \<lparr>pf_id = 200, pf_assignmentId = 100, pf_status = ''PENDING'', pf_reviewedAt = None,
      pf_reviewedBy = None, pf_reviewNotes = None\<rparr>"

definition exampleStore :: store where
  "exampleStore =
     \<lparr>reports = [mkReport 1 4 3 100, mkReport 2 5 0 50, mkReport 3 4 50 70],
      bids = [mkBid 10 1 7 500 3, mkBid 11 1 8 400 5, mkBid 12 2 8 900 2],
      assignments = [assignmentInProgress],
      contractors = [mkContractor 7, mkContractor 8],
      completionProofs = [pendingProof],
      subscriptions = [(1, ''u1''), (1, ''u2''), (3, ''u1''), (3, ''u3''), (3, ''u4'')],
      reportHistories = [],
      adminLogs = [],
      moderatorActions = []\<rparr>"

section \<open>Lemmas on the store operations\<close>

lemma find_updateWhere:
  assumes "\<And>x. key (f x) = key x"
  shows "find (\<lambda>x. key x = i) (updateWhere p f xs) =
         map_option (\<lambda>x. if p x then f x else x) (find (\<lambda>x. key x = i) xs)"
  by (induction xs) (auto simp: updateWhere_def assms)

lemma list_all2_updateWhere:
  assumes "\<And>x. x \<in> set xs \<Longrightarrow> R x (if p x then f x else x)"
  shows "list_all2 R xs (updateWhere p f xs)"
  using assms by (induction xs) (auto simp: updateWhere_def)

lemma length_updateWhere [simp]: "length (updateWhere p f xs) = length xs"
  by (simp add: updateWhere_def)

lemma reports_createHistory [simp]: "reports (createHistory h s) = reports s"
  by (simp add: createHistory_def)
lemma reports_createAdminLog [simp]: "reports (createAdminLog l s) = reports s"
  by (simp add: createAdminLog_def)
lemma reports_createModeratorAction [simp]: "reports (createModeratorAction m s) = reports s"
  by (simp add: createModeratorAction_def)

lemma updateReport_Some:
  "updateReport i f s = Some s' \<Longrightarrow> s' = s\<lparr>reports := updateWhere (\<lambda>r. rp_id r = i) f (reports s)\<rparr>"
  by (auto simp: updateReport_def split: option.splits)

lemma updateReport_found:
  "findReport i s = Some r \<Longrightarrow>
   updateReport i f s = Some (s\<lparr>reports := updateWhere (\<lambda>r. rp_id r = i) f (reports s)\<rparr>)"
  by (simp add: updateReport_def)

lemma createAssignment_Some:
  "createAssignment uniq a s = Some s' \<Longrightarrow>
   s' = s\<lparr>assignments := assignments s @ [a\<lparr>as_id := freshId (map as_id (assignments s))\<rparr>]\<rparr>"
  by (auto simp: createAssignment_def split: if_splits)

text \<open>
  What each handler leaves in the table of reports: the table as it was, or the table with
  the rows of one identifier updated.
\<close>

lemma patchStatus_reports:
  "reports (snd (patchStatus u now i status j s)) = reports s \<or>
   (\<exists>st. status = Some st \<and> reports (snd (patchStatus u now i status j s)) =
      updateWhere (\<lambda>r. rp_id r = i)
        (\<lambda>r. r\<lparr>rp_status := st, rp_updatedAt := now,
                rp_closedAt := (if st = ''CLOSED'' then Some now else rp_closedAt r)\<rparr>) (reports s))"
  by (auto simp: patchStatus_def dest!: updateReport_Some split: option.splits)

lemma patchAssign_reports:
  "reports (snd (patchAssign uniq u now i c d dl j s)) = reports s \<or>
   (\<exists>dep. reports (snd (patchAssign uniq u now i c d dl j s)) =
      updateWhere (\<lambda>r. rp_id r = i)
        (\<lambda>r. r\<lparr>rp_status := ''ASSIGNED'', rp_departmentId := dep, rp_updatedAt := now\<rparr>) (reports s))"
  by (auto simp: patchAssign_def dest!: updateReport_Some createAssignment_Some split: option.splits)

lemma postModerate_reports:
  "reports (snd (postModerate u now i a j sp se dup sev s)) = reports s \<or>
   reports (snd (postModerate u now i a j sp se dup sev s)) =
      updateWhere (\<lambda>r. rp_id r = i) (updateData now a sp se dup sev) (reports s)"
  by (auto simp: postModerate_def dest!: updateReport_Some split: option.splits)

lemma patchModerate_reports:
  "reports (snd (patchModerate u now i a j sp se s)) = reports s \<or>
   reports (snd (patchModerate u now i a j sp se s)) =
      updateWhere (\<lambda>r. rp_id r = i)
        (\<lambda>r. r\<lparr>rp_isSpam := (case sp of None \<Rightarrow> rp_isSpam r | Some b \<Rightarrow> b),
                rp_isSensitive := (case se of None \<Rightarrow> rp_isSensitive r | Some b \<Rightarrow> b),
                rp_updatedAt := now\<rparr>) (reports s)"
  by (auto simp: patchModerate_def dest!: updateReport_Some split: option.splits)

lemma patchEscalate_reports:
  "reports (snd (patchEscalate u now i j s)) = reports s \<or>
   (\<exists>rep. findReport i s = Some rep \<and> reports (snd (patchEscalate u now i j s)) =
      updateWhere (\<lambda>r. rp_id r = i)
        (\<lambda>r. r\<lparr>rp_severity := min (rp_severity rep + 1) 5, rp_updatedAt := now\<rparr>) (reports s))"
  by (auto simp: patchEscalate_def dest!: updateReport_Some split: option.splits)

lemma postBidAssign_refused:
  "postBidAssign uniq u now i b j dl s = (if justificationRejected j then (400, s) else (500, s))"
  by (simp add: postBidAssign_def selectionRefused_def)

lemma patchContractorBlock_reports:
  "reports (snd (patchContractorBlock u now i b j s)) = reports s"
  by (auto simp: patchContractorBlock_def Let_def split: option.splits)

lemma updateAssignment_Some:
  "updateAssignment i f s = Some s' \<Longrightarrow>
   s' = s\<lparr>assignments := updateWhere (\<lambda>a. as_id a = i) f (assignments s)\<rparr>"
  by (auto simp: updateAssignment_def split: option.splits)

section \<open>Reading a report after a handler\<close>

lemma findReport_updateWhere:
  assumes "\<And>x. rp_id (f x) = rp_id x"
  shows "findReport i (s\<lparr>reports := updateWhere p f (reports s)\<rparr>) =
         map_option (\<lambda>x. if p x then f x else x) (findReport i s)"
  using find_updateWhere [of rp_id f i p "reports s"] assms by (simp add: findReport_def)

lemma findReport_createHistory [simp]: "findReport i (createHistory h s) = findReport i s"
  by (simp add: findReport_def)
lemma findReport_createAdminLog [simp]: "findReport i (createAdminLog l s) = findReport i s"
  by (simp add: findReport_def)
lemma findReport_createModeratorAction [simp]:
  "findReport i (createModeratorAction m s) = findReport i s"
  by (simp add: findReport_def)

lemma findReport_id: "findReport i s = Some r \<Longrightarrow> rp_id r = i"
  by (auto simp: findReport_def find_Some_iff)

lemma rp_id_updateData [simp]: "rp_id (updateData now a sp se dup sev r) = rp_id r"
  by (simp add: updateData_def Let_def split: option.splits)

lemma patchEscalate_found:
  assumes "findReport i s = Some r"
  shows "fst (patchEscalate u now i reason s) = 200"
    and "findReport i (snd (patchEscalate u now i reason s)) =
           Some (r\<lparr>rp_severity := min (rp_severity r + 1) 5, rp_updatedAt := now\<rparr>)"
  using assms findReport_id [OF assms]
  by (simp_all add: patchEscalate_def updateReport_found findReport_updateWhere)

lemma postModerate_found:
  assumes "findReport i s = Some r" "includesStr validActions a" "\<not> justificationRejected j"
  shows "fst (postModerate u now i a j sp se dup sev s) = 200"
    and "findReport i (snd (postModerate u now i a j sp se dup sev s)) =
           Some (updateData now a sp se dup sev r)"
  using assms findReport_id [OF assms(1)]
  by (simp_all add: postModerate_def updateReport_found findReport_updateWhere)

section \<open>The listing and the priority score\<close>

lemma priorityOrder_key: "priorityOrder a b \<longleftrightarrow> orderByKey a \<le> orderByKey b"
  by (auto simp: priorityOrder_def orderByKey_def less_eq_prod_def)

lemma sorted_wrt_sort_key_priority: "sorted_wrt priorityOrder (sort_key orderByKey xs)"
proof -
  have "sorted (map orderByKey (sort_key orderByKey xs))" by (rule sorted_sort_key)
  then show ?thesis
    by (simp add: sorted_wrt_map priorityOrder_key [abs_def])
qed

text \<open>
  C10. With \<^verbatim>\<open>sortBy = 'priorityScore'\<close> the listing is ordered by severity descending, then
  upvotes descending, then creation time descending, whatever the filter and the page. It
  is not the order of the priority score: on the example store the listing is report 2
  (severity 5, no upvotes, no subscribers; score 100), report 3 (severity 4, 50 upvotes,
  3 subscribers; score 195), report 1 (score 96), which is not descending in the score.
\<close>

theorem listing_order_is_severity_upvotes_created:
  "sorted_wrt priorityOrder
     (map fst (snd (fst (getReports wh byColumn ''priorityScore'' sortOrder page limit s)))) \<and>
   map (\<lambda>x. (rp_id (fst x), snd x))
     (snd (fst (getReports (\<lambda>r. True) byColumn ''priorityScore'' sortOrder 1 20 exampleStore))) =
     [(2, 100), (3, 195), (1, 96)] \<and>
   \<not> sorted_wrt (\<lambda>x y. snd y \<le> snd x)
     (snd (fst (getReports (\<lambda>r. True) byColumn ''priorityScore'' sortOrder 1 20 exampleStore)))"
proof -
  have order: "sorted_wrt priorityOrder
     (map fst (snd (fst (getReports wh byColumn ''priorityScore'' sortOrder page limit s))))"
    by (simp add: getReports_def Let_def comp_def sorted_wrt_take sorted_wrt_drop
          sorted_wrt_sort_key_priority)
  have rows: "map (\<lambda>x. (rp_id (fst x), snd x))
     (snd (fst (getReports (\<lambda>r. True) byColumn ''priorityScore'' sortOrder 1 20 exampleStore))) =
     [(2, 100), (3, 195), (1, 96)]"
    by code_simp
  have scores: "\<not> sorted_wrt (\<lambda>x y. snd y \<le> snd x)
     (snd (fst (getReports (\<lambda>r. True) byColumn ''priorityScore'' sortOrder 1 20 exampleStore)))"
    by code_simp
  from order rows scores show ?thesis by (intro conjI)
qed

theorem listing_order_is_severity_upvotes_created_witness:
  "sorted_wrt priorityOrder
     (map fst (snd (fst (getReports (\<lambda>r. True) (\<lambda>c d xs. xs) ''priorityScore'' ''desc'' 1 20
        exampleStore))))"
  using listing_order_is_severity_upvotes_created
    [of "\<lambda>r. True" "\<lambda>c d xs. xs" "''desc''" 1 20 exampleStore]
  by (rule conjunct1)

lemma getReports_first_page:
  assumes "\<And>xs. mset (byColumn sortBy sortOrder xs) = mset xs"
  shows "snd (fst (getReports wh byColumn sortBy sortOrder 1 (length (reports s)) s)) =
           map (\<lambda>r. (r, priorityScore r s))
             (if sortBy = ''priorityScore'' then sort_key orderByKey (filter wh (reports s))
              else byColumn sortBy sortOrder (filter wh (reports s)))"
proof -
  have "length (byColumn sortBy sortOrder (filter wh (reports s))) = length (filter wh (reports s))"
    using assms [of "filter wh (reports s)"] by (metis size_mset)
  then have "length (if sortBy = ''priorityScore'' then sort_key orderByKey (filter wh (reports s))
              else byColumn sortBy sortOrder (filter wh (reports s))) \<le> length (reports s)"
    by simp
  then show ?thesis by (simp add: getReports_def Let_def)
qed

text \<open>
  C9. The priority score of both read handlers is
  \<open>severity * 20 + upvotes * 2 + subscriberCount * 5\<close>; the handlers leave the store as it
  was, and no row of the store has a column for the score. The detail answers the score of
  the report it finds. The listing pairs every row it returns with the score of that row;
  when the order by a column is a reordering of the rows, the first page with room for all
  reports holds every report the filter selects, once, and every page is the slice of that
  page at \<^verbatim>\<open>skip\<close> and \<^verbatim>\<open>take\<close>. Report 1 of the example store has severity 4, three upvotes
  and two subscribers, and its score is 96 in the detail and in the listing.
\<close>

theorem priority_score_computed_on_read:
  "snd (getReport now i s) = s \<and>
   snd (getReports wh byColumn sortBy sortOrder page limit s) = s \<and>
   fst (getReport now i s) =
     (case findReport i s of
        None \<Rightarrow> (404, None)
      | Some r \<Rightarrow>
          (200, Some (rp_severity r * 20 + rp_upvotes r * 2 + countSubscriptions (rp_id r) s * 5,
                      (now - rp_createdAt r) div msPerDay))) \<and>
   map snd (snd (fst (getReports wh byColumn sortBy sortOrder page limit s))) =
     map (\<lambda>r. rp_severity r * 20 + rp_upvotes r * 2 + countSubscriptions (rp_id r) s * 5)
       (map fst (snd (fst (getReports wh byColumn sortBy sortOrder page limit s)))) \<and>
   ((\<forall>xs. mset (byColumn sortBy sortOrder xs) = mset xs) \<and> 0 < page \<longrightarrow>
      fst (fst (getReports wh byColumn sortBy sortOrder page limit s)) = 200 \<and>
      mset (snd (fst (getReports wh byColumn sortBy sortOrder 1 (length (reports s)) s))) =
        mset (map (\<lambda>r. (r, rp_severity r * 20 + rp_upvotes r * 2 +
                            countSubscriptions (rp_id r) s * 5))
               (filter wh (reports s))) \<and>
      snd (fst (getReports wh byColumn sortBy sortOrder page limit s)) =
        take limit (drop ((page - 1) * limit)
          (snd (fst (getReports wh byColumn sortBy sortOrder 1 (length (reports s)) s))))) \<and>
   map_option (\<lambda>r. (rp_severity r, rp_upvotes r, countSubscriptions (rp_id r) exampleStore))
     (findReport 1 exampleStore) = Some (4, 3, 2) \<and>
   fst (getReport now 1 exampleStore) = (200, Some (96, (now - 100) div msPerDay)) \<and>
   map (\<lambda>x. (rp_id (fst x), snd x))
     (snd (fst (getReports (\<lambda>r. True) (\<lambda>c d xs. rev xs) ''createdAt'' ''desc'' 1 20
        exampleStore))) = [(3, 195), (2, 100), (1, 96)]"
proof -
  have a: "snd (getReport now i s) = s"
    by (simp add: getReport_def split: option.splits)
  have b: "snd (getReports wh byColumn sortBy sortOrder page limit s) = s"
    by (simp add: getReports_def Let_def)
  have c: "fst (getReport now i s) =
     (case findReport i s of
        None \<Rightarrow> (404, None)
      | Some r \<Rightarrow>
          (200, Some (rp_severity r * 20 + rp_upvotes r * 2 + countSubscriptions (rp_id r) s * 5,
                      (now - rp_createdAt r) div msPerDay)))"
    by (simp add: getReport_def priorityScore_def split: option.splits)
  have d: "map snd (snd (fst (getReports wh byColumn sortBy sortOrder page limit s))) =
     map (\<lambda>r. rp_severity r * 20 + rp_upvotes r * 2 + countSubscriptions (rp_id r) s * 5)
       (map fst (snd (fst (getReports wh byColumn sortBy sortOrder page limit s))))"
    by (simp add: getReports_def Let_def priorityScore_def comp_def)
  have e: "fst (fst (getReports wh byColumn sortBy sortOrder page limit s)) = 200 \<and>
      mset (snd (fst (getReports wh byColumn sortBy sortOrder 1 (length (reports s)) s))) =
        mset (map (\<lambda>r. (r, rp_severity r * 20 + rp_upvotes r * 2 +
                            countSubscriptions (rp_id r) s * 5))
               (filter wh (reports s))) \<and>
      snd (fst (getReports wh byColumn sortBy sortOrder page limit s)) =
        take limit (drop ((page - 1) * limit)
          (snd (fst (getReports wh byColumn sortBy sortOrder 1 (length (reports s)) s))))"
    if perm: "\<forall>xs. mset (byColumn sortBy sortOrder xs) = mset xs" and page: "0 < page"
  proof (intro conjI)
    show "fst (fst (getReports wh byColumn sortBy sortOrder page limit s)) = 200"
      using page by (simp add: getReports_def Let_def)
    have first: "snd (fst (getReports wh byColumn sortBy sortOrder 1 (length (reports s)) s)) =
           map (\<lambda>r. (r, priorityScore r s))
             (if sortBy = ''priorityScore'' then sort_key orderByKey (filter wh (reports s))
              else byColumn sortBy sortOrder (filter wh (reports s)))"
      using perm by (intro getReports_first_page) simp
    show "mset (snd (fst (getReports wh byColumn sortBy sortOrder 1 (length (reports s)) s))) =
        mset (map (\<lambda>r. (r, rp_severity r * 20 + rp_upvotes r * 2 +
                            countSubscriptions (rp_id r) s * 5))
               (filter wh (reports s)))"
      unfolding first using perm by (simp add: priorityScore_def)
    show "snd (fst (getReports wh byColumn sortBy sortOrder page limit s)) =
        take limit (drop ((page - 1) * limit)
          (snd (fst (getReports wh byColumn sortBy sortOrder 1 (length (reports s)) s))))"
      unfolding first using page by (simp add: getReports_def Let_def take_map drop_map)
  qed
  have f: "map_option (\<lambda>r. (rp_severity r, rp_upvotes r, countSubscriptions (rp_id r) exampleStore))
     (findReport 1 exampleStore) = Some (4, 3, 2)"
    by (simp add: findReport_def exampleStore_def mkReport_def countSubscriptions_def)
  have g: "fst (getReport now 1 exampleStore) = (200, Some (96, (now - 100) div msPerDay))"
    by (simp add: getReport_def findReport_def exampleStore_def mkReport_def
          priorityScore_def countSubscriptions_def)
  have h: "map (\<lambda>x. (rp_id (fst x), snd x))
     (snd (fst (getReports (\<lambda>r. True) (\<lambda>c d xs. rev xs) ''createdAt'' ''desc'' 1 20
        exampleStore))) = [(3, 195), (2, 100), (1, 96)]"
    by code_simp
  from a b c d e f g h show ?thesis by (intro conjI impI) blast+
qed

theorem priority_score_computed_on_read_witness:
  "fst (getReport 1000 1 exampleStore) = (200, Some (96, (1000 - 100) div msPerDay)) \<and>
   fst (fst (getReports (\<lambda>r. True) (\<lambda>c d xs. rev xs) ''createdAt'' ''desc'' 1 2 exampleStore)) =
     200 \<and>
   mset (snd (fst (getReports (\<lambda>r. True) (\<lambda>c d xs. rev xs) ''createdAt'' ''desc'' 1
      (length (reports exampleStore)) exampleStore))) =
     mset (map (\<lambda>r. (r, rp_severity r * 20 + rp_upvotes r * 2 +
                         countSubscriptions (rp_id r) exampleStore * 5))
            (filter (\<lambda>r. True) (reports exampleStore))) \<and>
   snd (fst (getReports (\<lambda>r. True) (\<lambda>c d xs. rev xs) ''createdAt'' ''desc'' 1 2 exampleStore)) =
     take 2 (drop ((1 - 1) * 2)
       (snd (fst (getReports (\<lambda>r. True) (\<lambda>c d xs. rev xs) ''createdAt'' ''desc'' 1
          (length (reports exampleStore)) exampleStore))))"
proof -
  have perm: "\<forall>xs :: report list. mset (rev xs) = mset xs" by simp
  have page: "0 < (1 :: nat)" by simp
  from priority_score_computed_on_read
         [of 1000 1 exampleStore "\<lambda>r. True" "\<lambda>c d xs. rev xs" "''createdAt''" "''desc''" 1 2]
       perm page
  show ?thesis by blast
qed

section \<open>The justification gate\<close>

lemma trim_length_le: "length (trim str) \<le> length str"
proof -
  have "length (dropWhile isWhiteSpace (rev (dropWhile isWhiteSpace str)))
          \<le> length (rev (dropWhile isWhiteSpace str))"
    by (rule length_dropWhile_le)
  also have "\<dots> \<le> length str" by (simp add: length_dropWhile_le)
  finally show ?thesis by (simp add: trim_def)
qed

lemma justificationRejected_iff:
  "justificationRejected j \<longleftrightarrow> (j = None \<or> (\<exists>str. j = Some str \<and> length (trim str) < 10))"
proof (cases j)
  case None
  then show ?thesis by (simp add: justificationRejected_def)
next
  case (Some str)
  have "str = [] \<Longrightarrow> length (trim str) < 10" by (simp add: trim_def)
  with Some show ?thesis by (auto simp: justificationRejected_def)
qed

text \<open>
  The six handlers that read \<^verbatim>\<open>justification\<close> answer 400 and write nothing when it is
  absent or shorter than ten characters once trimmed.
\<close>

lemma gated_handlers_reject:
  assumes "justificationRejected j"
  shows "patchStatus u now i st j s = (400, s)"
    and "patchAssign uniq u now i c d dl j s = (400, s)"
    and "postModerate u now i a j sp se dup sev s = (400, s)"
    and "postBidAssign uniq u now i b j dl s = (400, s)"
    and "patchContractorBlock u now i blk j s = (400, s)"
    and "patchProofApprove u now i ok j s = (400, s)"
  using assms
  by (simp_all add: patchStatus_def patchAssign_def postModerate_def postBidAssign_def
        patchContractorBlock_def patchProofApprove_def)

lemma justification_nine_and_ten:
  "justificationRejected (Some ''  123456789  '')"
  "\<not> justificationRejected (Some ''  1234567890  '')"
  by (simp_all add: justificationRejected_def trim_def isWhiteSpace_def)

text \<open>
  C1. The routes \<^verbatim>\<open>PATCH /reports/:id/escalate\<close> and \<^verbatim>\<open>PATCH /reports/:id/moderate\<close> read a
  \<^verbatim>\<open>reason\<close> and never check it. On the example store, with no justification the status
  route answers 400 and leaves the store, and \<^verbatim>\<open>POST /reports/:id/moderate\<close> does so for the
  four-character justification \<open>spam\<close>; the escalate route with no reason answers 200 and
  raises the severity of report 1 from 4 to 5, and the flag route with the reason \<open>spam\<close>
  answers 200 and sets the spam flag of report 1.
\<close>

theorem escalate_and_flag_routes_skip_the_gate:
  "justificationRejected None \<and> justificationRejected (Some ''spam'') \<and>
   patchStatus adminUser 1000 1 (Some ''CLOSED'') None exampleStore = (400, exampleStore) \<and>
   postModerate adminUser 1000 1 (Some ''FLAG_SPAM'') (Some ''spam'') (Some True) None None None
     exampleStore = (400, exampleStore) \<and>
   map_option rp_severity (findReport 1 exampleStore) = Some 4 \<and>
   fst (patchEscalate adminUser 1000 1 None exampleStore) = 200 \<and>
   map_option rp_severity (findReport 1 (snd (patchEscalate adminUser 1000 1 None exampleStore)))
     = Some 5 \<and>
   map_option rp_isSpam (findReport 1 exampleStore) = Some False \<and>
   fst (patchModerate adminUser 1000 1 (Some ''FLAG_SPAM'') (Some ''spam'') (Some True) None
     exampleStore) = 200 \<and>
   map_option rp_isSpam (findReport 1
     (snd (patchModerate adminUser 1000 1 (Some ''FLAG_SPAM'') (Some ''spam'') (Some True) None
        exampleStore))) = Some True"
proof -
  have none: "justificationRejected None" by (simp add: justificationRejected_def)
  have short: "justificationRejected (Some ''spam'')"
    by (simp add: justificationRejected_iff le_less_trans [OF trim_length_le])
  have r1: "findReport 1 exampleStore = Some (mkReport 1 4 3 100)"
    by (simp add: findReport_def exampleStore_def mkReport_def)
  have flag: "includesStr flagActions (Some ''FLAG_SPAM'')" by code_simp
  have updated: "findReport 1
     (snd (patchModerate adminUser 1000 1 (Some ''FLAG_SPAM'') (Some ''spam'') (Some True) None
        exampleStore)) =
     Some ((mkReport 1 4 3 100)\<lparr>rp_isSpam := True, rp_isSensitive := False, rp_updatedAt := 1000\<rparr>)"
    using r1 flag findReport_id [OF r1]
    by (simp add: patchModerate_def updateReport_found findReport_updateWhere mkReport_def)
  have ok: "fst (patchModerate adminUser 1000 1 (Some ''FLAG_SPAM'') (Some ''spam'') (Some True) None
     exampleStore) = 200"
    using r1 flag by (simp add: patchModerate_def updateReport_found)
  show ?thesis
    using none short gated_handlers_reject(1) [OF none] gated_handlers_reject(3) [OF short]
      r1 patchEscalate_found [OF r1] updated ok
    by (simp add: mkReport_def)
qed

section \<open>Severity\<close>

text \<open>
  C4, as claimed, fails: the moderate route stores the severity of the body without a
  check of its range. On the example store a call with severity 7 answers 200 and leaves
  report 1 with severity 7; and after a call with severity -3, the escalation of report 1
  leaves it with severity -2.
\<close>

theorem moderate_stores_severity_out_of_range:
  "list_all severityInRange (reports exampleStore) \<and>
   fst (postModerate adminUser 1000 1 (Some ''ESCALATE'') (Some ''needs urgent attention'')
          None None None (Some 7) exampleStore) = 200 \<and>
   map rp_severity
     (reports (snd (postModerate adminUser 1000 1 (Some ''ESCALATE'')
        (Some ''needs urgent attention'') None None None (Some 7) exampleStore))) = [7, 5, 4] \<and>
   \<not> list_all severityInRange
     (reports (snd (postModerate adminUser 1000 1 (Some ''ESCALATE'')
        (Some ''needs urgent attention'') None None None (Some 7) exampleStore))) \<and>
   map rp_severity
     (reports (snd (postModerate adminUser 1000 1 (Some ''APPROVE'')
        (Some ''severity entered by mistake'') None None None (Some (- 3)) exampleStore))) =
     [- 3, 5, 4] \<and>
   fst (patchEscalate adminUser 2000 1 None
     (snd (postModerate adminUser 1000 1 (Some ''APPROVE'')
        (Some ''severity entered by mistake'') None None None (Some (- 3)) exampleStore))) =
     200 \<and>
   map rp_severity
     (reports (snd (patchEscalate adminUser 2000 1 None
        (snd (postModerate adminUser 1000 1 (Some ''APPROVE'')
           (Some ''severity entered by mistake'') None None None (Some (- 3))
           exampleStore))))) = [- 2, 5, 4]"
  by code_simp

text \<open>
  C4, amended. On an existing report the escalate route answers 200 and sets the severity
  to \<open>min (severity + 1) 5\<close>: one more when the severity was below 5, never more than 5, and
  in the range 1 to 5 when the severity was. The moderate route, on a valid action and an
  accepted justification, stores a severity of the body that is an integer of the range of
  the column as it is, so the severity it leaves is in the range 1 to 5 exactly when the
  supplied one is.
\<close>

theorem escalate_caps_and_moderate_copies_severity:
  "findReport i s = Some r \<Longrightarrow>
     fst (patchEscalate u now i reason s) = 200 \<and>
     findReport i (snd (patchEscalate u now i reason s)) =
       Some (r\<lparr>rp_severity := min (rp_severity r + 1) 5, rp_updatedAt := now\<rparr>) \<and>
     (rp_severity r < 5 \<longrightarrow> min (rp_severity r + 1) 5 = rp_severity r + 1) \<and>
     min (rp_severity r + 1) 5 \<le> 5 \<and>
     (severityInRange r \<longrightarrow>
        severityInRange (r\<lparr>rp_severity := min (rp_severity r + 1) 5, rp_updatedAt := now\<rparr>)) \<and>
     (includesStr validActions a \<and> \<not> justificationRejected j \<longrightarrow>
        fst (postModerate u now i a j sp se dup (Some n) s) = 200 \<and>
        map_option rp_severity
          (findReport i (snd (postModerate u now i a j sp se dup (Some n) s))) = Some (sint n) \<and>
        map_option severityInRange
          (findReport i (snd (postModerate u now i a j sp se dup (Some n) s))) =
          Some (1 \<le> sint n \<and> sint n \<le> 5))"
proof -
  assume r: "findReport i s = Some r"
  have mod: "map_option rp_severity
          (findReport i (snd (postModerate u now i a j sp se dup (Some n) s))) = Some (sint n)"
    if "includesStr validActions a" "\<not> justificationRejected j"
    using postModerate_found(2) [OF r that, of u now sp se dup "Some n"]
    by (simp add: updateData_def Let_def split: option.splits)
  have range: "map_option severityInRange
          (findReport i (snd (postModerate u now i a j sp se dup (Some n) s))) =
          Some (1 \<le> sint n \<and> sint n \<le> 5)"
    if "includesStr validActions a" "\<not> justificationRejected j"
    using postModerate_found(2) [OF r that, of u now sp se dup "Some n"]
    by (simp add: updateData_def Let_def severityInRange_def split: option.splits)
  show ?thesis
    using patchEscalate_found [OF r, of u now reason] postModerate_found(1) [OF r] mod range
    by (auto simp: severityInRange_def)
qed

theorem escalate_caps_and_moderate_copies_severity_witness:
  "findReport 1 exampleStore = Some (mkReport 1 4 3 100) \<and>
   severityInRange (mkReport 1 4 3 100) \<and>
   includesStr validActions (Some ''ESCALATE'') \<and>
   \<not> justificationRejected (Some ''needs urgent attention'') \<and>
   fst (patchEscalate adminUser 1000 1 None exampleStore) = 200 \<and>
   findReport 1 (snd (patchEscalate adminUser 1000 1 None exampleStore)) =
     Some ((mkReport 1 4 3 100)\<lparr>rp_severity := min (rp_severity (mkReport 1 4 3 100) + 1) 5,
             rp_updatedAt := 1000\<rparr>) \<and>
   severityInRange ((mkReport 1 4 3 100)\<lparr>rp_severity :=
       min (rp_severity (mkReport 1 4 3 100) + 1) 5, rp_updatedAt := 1000\<rparr>) \<and>
   map_option rp_severity
     (findReport 1 (snd (postModerate adminUser 1000 1 (Some ''ESCALATE'')
        (Some ''needs urgent attention'') None None None (Some 3) exampleStore))) =
     Some (sint (3 :: 32 word))"
proof -
  have r: "findReport 1 exampleStore = Some (mkReport 1 4 3 100)"
    by (simp add: findReport_def exampleStore_def mkReport_def)
  have range: "severityInRange (mkReport 1 4 3 100)"
    by (simp add: severityInRange_def mkReport_def)
  have act: "includesStr validActions (Some ''ESCALATE'')" by code_simp
  have just: "\<not> justificationRejected (Some ''needs urgent attention'')" by code_simp
  from escalate_caps_and_moderate_copies_severity
         [OF r, of adminUser 1000 None "Some ''ESCALATE''" "Some ''needs urgent attention''"
            None None None 3]
       r range act just
  show ?thesis by blast
qed

section \<open>Duplicates\<close>

text \<open>
  C5. The moderate route with action \<open>MARK_DUPLICATE\<close> asks nothing of \<^verbatim>\<open>duplicateOfId\<close> and
  never writes the counter of duplicates. On the example store, whose counters are all 0:
  marking report 1 a duplicate of report 2 answers 200, leaves report 1 with status
  \<open>DUPLICATE\<close> and leaves every counter at 0; marking it a duplicate of itself answers 200
  and leaves report 1 with status \<open>DUPLICATE\<close> and itself as \<^verbatim>\<open>duplicateOfId\<close>; and without a
  \<^verbatim>\<open>duplicateOfId\<close> the route answers 200 and leaves report 1 \<open>OPEN\<close>.
\<close>

theorem moderate_mark_duplicate_unchecked_and_uncounted:
  "map rp_noOfDuplicates (reports exampleStore) = [0, 0, 0] \<and>
   fst (postModerate adminUser 1000 1 (Some ''MARK_DUPLICATE'') (Some ''same pothole as before'')
          None None (Some 2) None exampleStore) = 200 \<and>
   map_option (\<lambda>r. (rp_status r, rp_duplicateOfId r))
     (findReport 1 (snd (postModerate adminUser 1000 1 (Some ''MARK_DUPLICATE'')
        (Some ''same pothole as before'') None None (Some 2) None exampleStore))) =
     Some (''DUPLICATE'', Some 2) \<and>
   map rp_noOfDuplicates
     (reports (snd (postModerate adminUser 1000 1 (Some ''MARK_DUPLICATE'')
        (Some ''same pothole as before'') None None (Some 2) None exampleStore))) = [0, 0, 0] \<and>
   fst (postModerate adminUser 1000 1 (Some ''MARK_DUPLICATE'') (Some ''same pothole as before'')
          None None (Some 1) None exampleStore) = 200 \<and>
   map_option (\<lambda>r. (rp_id r, rp_status r, rp_duplicateOfId r))
     (findReport 1 (snd (postModerate adminUser 1000 1 (Some ''MARK_DUPLICATE'')
        (Some ''same pothole as before'') None None (Some 1) None exampleStore))) =
     Some (1, ''DUPLICATE'', Some 1) \<and>
   fst (postModerate adminUser 1000 1 (Some ''MARK_DUPLICATE'') (Some ''same pothole as before'')
          None None None None exampleStore) = 200 \<and>
   map_option (\<lambda>r. (rp_status r, rp_duplicateOfId r))
     (findReport 1 (snd (postModerate adminUser 1000 1 (Some ''MARK_DUPLICATE'')
        (Some ''same pothole as before'') None None None None exampleStore))) =
     Some (''OPEN'', None)"
  by code_simp

section \<open>Blocking a contractor\<close>

lemma findContractor_updateWhere:
  assumes "\<And>x. ct_id (f x) = ct_id x"
  shows "findContractor i (s\<lparr>contractors := updateWhere p f (contractors s)\<rparr>) =
         map_option (\<lambda>x. if p x then f x else x) (findContractor i s)"
  using find_updateWhere [of ct_id f i p "contractors s"] assms by (simp add: findContractor_def)

lemma findContractor_id: "findContractor i s = Some c \<Longrightarrow> ct_id c = i"
  by (auto simp: findContractor_def find_Some_iff)

text \<open>
  C8. Blocking an existing contractor with an accepted justification answers 200, sets
  the block flag of the contractor, cancels every assignment of the contractor whose status
  is \<open>ASSIGNED\<close> or \<open>IN_PROGRESS\<close>, with the current instant and the reason the code supplies,
  leaves every other assignment as it was, and appends one row to the admin log, of entity
  type \<open>CONTRACTOR\<close> and action type \<open>BLOCKED\<close>. On the example store, blocking contractor 7
  cancels the assignment in progress.
\<close>

theorem block_cancels_active_assignments:
  "findContractor i s = Some c \<and> \<not> justificationRejected j \<Longrightarrow>
     fst (patchContractorBlock u now i True j s) = 200 \<and>
     findContractor i (snd (patchContractorBlock u now i True j s)) =
       Some (c\<lparr>ct_isBlocked := True, ct_blockReason := j, ct_blockedAt := Some now,
               ct_blockedBy := Some (u_id u), ct_updatedAt := now\<rparr>) \<and>
     assignments (snd (patchContractorBlock u now i True j s)) =
       map (\<lambda>a. if as_contractorId a = i \<and>
                    (as_status a = ''ASSIGNED'' \<or> as_status a = ''IN_PROGRESS'')
                 then a\<lparr>as_status := ''CANCELLED'', as_cancelledAt := Some now,
                        as_cancelReason := Some ''Contractor blocked by admin''\<rparr>
                 else a) (assignments s) \<and>
     adminLogs (snd (patchContractorBlock u now i True j s)) =
       adminLogs s @
       [\<lparr>al_adminId = u_id u, al_adminRole = u_role u, al_entityType = ''CONTRACTOR'',
         al_entityId = i, al_actionType = ''BLOCKED'', al_justificationMessage = j\<rparr>] \<and>
     map (\<lambda>a. (as_id a, as_status a, as_cancelledAt a, as_cancelReason a))
       (assignments (snd (patchContractorBlock adminUser 1000 7 True
          (Some ''repeated delays reported by citizens'') exampleStore))) =
       [(100, ''CANCELLED'', Some 1000, Some ''Contractor blocked by admin'')]"
proof -
  assume h: "findContractor i s = Some c \<and> \<not> justificationRejected j"
  then have c: "findContractor i s = Some c" and j: "\<not> justificationRejected j" by simp_all
  let ?s' = "snd (patchContractorBlock u now i True j s)"
  have ok: "fst (patchContractorBlock u now i True j s) = 200"
    using c j by (simp add: patchContractorBlock_def Let_def)
  have con: "findContractor i ?s' =
       Some (c\<lparr>ct_isBlocked := True, ct_blockReason := j, ct_blockedAt := Some now,
               ct_blockedBy := Some (u_id u), ct_updatedAt := now\<rparr>)"
    using c j findContractor_id [OF c]
    by (simp add: patchContractorBlock_def Let_def createAdminLog_def findContractor_def
          find_updateWhere [where key = ct_id])
  have asg: "assignments ?s' =
       map (\<lambda>a. if as_contractorId a = i \<and>
                    (as_status a = ''ASSIGNED'' \<or> as_status a = ''IN_PROGRESS'')
                 then a\<lparr>as_status := ''CANCELLED'', as_cancelledAt := Some now,
                        as_cancelReason := Some ''Contractor blocked by admin''\<rparr>
                 else a) (assignments s)"
    using c j
    by (simp add: patchContractorBlock_def Let_def createAdminLog_def updateWhere_def)
  have log: "adminLogs ?s' =
       adminLogs s @
       [\<lparr>al_adminId = u_id u, al_adminRole = u_role u, al_entityType = ''CONTRACTOR'',
         al_entityId = i, al_actionType = ''BLOCKED'', al_justificationMessage = j\<rparr>]"
    using c j by (simp add: patchContractorBlock_def Let_def createAdminLog_def)
  have scenario: "map (\<lambda>a. (as_id a, as_status a, as_cancelledAt a, as_cancelReason a))
       (assignments (snd (patchContractorBlock adminUser 1000 7 True
          (Some ''repeated delays reported by citizens'') exampleStore))) =
       [(100, ''CANCELLED'', Some 1000, Some ''Contractor blocked by admin'')]"
    by code_simp
  from ok con asg log scenario show ?thesis by (intro conjI)
qed

theorem block_cancels_active_assignments_witness:
  "findContractor 7 exampleStore = Some (mkContractor 7) \<and>
   \<not> justificationRejected (Some ''repeated delays reported by citizens'') \<and>
   fst (patchContractorBlock adminUser 1000 7 True (Some ''repeated delays reported by citizens'')
     exampleStore) = 200 \<and>
   adminLogs (snd (patchContractorBlock adminUser 1000 7 True
      (Some ''repeated delays reported by citizens'') exampleStore)) =
     adminLogs exampleStore @
     [\<lparr>al_adminId = u_id adminUser, al_adminRole = u_role adminUser,
       al_entityType = ''CONTRACTOR'', al_entityId = 7, al_actionType = ''BLOCKED'',
       al_justificationMessage = Some ''repeated delays reported by citizens''\<rparr>]"
proof -
  have c: "findContractor 7 exampleStore = Some (mkContractor 7)"
    by (simp add: findContractor_def exampleStore_def mkContractor_def)
  have just: "\<not> justificationRejected (Some ''repeated delays reported by citizens'')"
    by code_simp
  from block_cancels_active_assignments [OF conjI [OF c just], of adminUser 1000] c just
  show ?thesis by blast
qed

section \<open>Reviewing a completion proof\<close>

lemma findProof_id: "findProof i s = Some p \<Longrightarrow> pf_id p = i"
  by (auto simp: findProof_def find_Some_iff)

lemma findAssignment_id: "findAssignment i s = Some a \<Longrightarrow> as_id a = i"
  by (auto simp: findAssignment_def find_Some_iff)

lemma updateAssignment_found:
  "findAssignment i s = Some a \<Longrightarrow>
   updateAssignment i f s = Some (s\<lparr>assignments := updateWhere (\<lambda>a. as_id a = i) f (assignments s)\<rparr>)"
  by (simp add: updateAssignment_def)

text \<open>
  The tables after a review that answers 200: the proof reviewed and, on approval, the
  assignment and the report completed.
\<close>

lemma patchProofApprove_approved:
  assumes "patchProofApprove u now i True j s = (200, s')"
  shows "\<exists>p a r. findProof i s = Some p \<and> findAssignment (pf_assignmentId p) s = Some a \<and>
           findReport (as_reportId a) s = Some r \<and>
           completionProofs s' = updateWhere (\<lambda>x. pf_id x = i)
              (\<lambda>x. x\<lparr>pf_status := ''APPROVED'', pf_reviewedAt := Some now,
                      pf_reviewedBy := Some (u_id u), pf_reviewNotes := j\<rparr>) (completionProofs s) \<and>
           assignments s' = updateWhere (\<lambda>x. as_id x = pf_assignmentId p)
              (\<lambda>a. a\<lparr>as_status := ''COMPLETED'', as_completedAt := Some now\<rparr>) (assignments s) \<and>
           reports s' = updateWhere (\<lambda>x. rp_id x = as_reportId a)
              (\<lambda>x. x\<lparr>rp_status := ''COMPLETED'', rp_completedAt := Some now, rp_updatedAt := now\<rparr>)
              (reports s)"
  using assms
  apply (simp add: patchProofApprove_def Let_def split: option.splits if_splits sum.splits)
  apply (auto simp: createAdminLog_def createHistory_def findAssignment_def
      dest!: updateReport_Some updateAssignment_Some dest: findReport_id split: option.splits)
  done

lemma patchProofApprove_rejected:
  assumes "patchProofApprove u now i False j s = (200, s')"
  shows "\<exists>p. findProof i s = Some p \<and>
           completionProofs s' = updateWhere (\<lambda>x. pf_id x = i)
              (\<lambda>x. x\<lparr>pf_status := ''REJECTED'', pf_reviewedAt := Some now,
                      pf_reviewedBy := Some (u_id u), pf_reviewNotes := j\<rparr>) (completionProofs s) \<and>
           assignments s' = assignments s \<and> reports s' = reports s"
  using assms
  apply (simp add: patchProofApprove_def Let_def split: option.splits if_splits sum.splits)
  apply (auto simp: createAdminLog_def createHistory_def split: option.splits)
  done

lemma patchProofApprove_succeeds:
  assumes "findProof i s = Some p" "findAssignment (pf_assignmentId p) s = Some a"
    "findReport (as_reportId a) s = Some r" "findContractor (as_contractorId a) s = Some c"
    "\<not> justificationRejected j"
  shows "fst (patchProofApprove u now i ok j s) = 200"
  using assms findReport_id [OF assms(3)]
  by (simp add: patchProofApprove_def Let_def updateAssignment_def updateReport_def
        findAssignment_def findReport_def)

text \<open>
  C7. A review that answers 200 leaves, on approval, the proof \<open>APPROVED\<close>, its assignment
  \<open>COMPLETED\<close> with the current instant as completion stamp and the report of the assignment
  \<open>COMPLETED\<close> with the current instant as \<^verbatim>\<open>completedAt\<close>; on rejection it leaves the proof
  \<open>REJECTED\<close> and the tables of reports and of assignments as they were. The review answers
  200 when the justification is accepted and the proof, its assignment, and the report and
  contractor of the assignment exist.
\<close>

theorem proof_review_completes_or_only_rejects:
  "(patchProofApprove u now i True j s = (200, s') \<longrightarrow>
      (\<exists>p a r.
         findProof i s = Some p \<and> findAssignment (pf_assignmentId p) s = Some a \<and>
         findReport (as_reportId a) s = Some r \<and>
         findProof i s' =
           Some (p\<lparr>pf_status := ''APPROVED'', pf_reviewedAt := Some now,
                   pf_reviewedBy := Some (u_id u), pf_reviewNotes := j\<rparr>) \<and>
         findAssignment (pf_assignmentId p) s' =
           Some (a\<lparr>as_status := ''COMPLETED'', as_completedAt := Some now\<rparr>) \<and>
         findReport (as_reportId a) s' =
           Some (r\<lparr>rp_status := ''COMPLETED'', rp_completedAt := Some now,
                   rp_updatedAt := now\<rparr>))) \<and>
   (patchProofApprove u now i False j s = (200, s') \<longrightarrow>
      (\<exists>p. findProof i s = Some p \<and>
         findProof i s' =
           Some (p\<lparr>pf_status := ''REJECTED'', pf_reviewedAt := Some now,
                   pf_reviewedBy := Some (u_id u), pf_reviewNotes := j\<rparr>)) \<and>
      reports s' = reports s \<and> assignments s' = assignments s) \<and>
   (findProof i s = Some p \<and> findAssignment (pf_assignmentId p) s = Some a \<and>
    findReport (as_reportId a) s = Some r \<and> findContractor (as_contractorId a) s = Some c \<and>
    \<not> justificationRejected j \<longrightarrow>
      fst (patchProofApprove u now i ok j s) = 200)"
proof (intro conjI impI)
  assume h: "patchProofApprove u now i True j s = (200, s')"
  from patchProofApprove_approved [OF h] obtain p a r where
    p: "findProof i s = Some p" and a: "findAssignment (pf_assignmentId p) s = Some a" and
    r: "findReport (as_reportId a) s = Some r" and
    ps: "completionProofs s' = updateWhere (\<lambda>x. pf_id x = i)
              (\<lambda>x. x\<lparr>pf_status := ''APPROVED'', pf_reviewedAt := Some now,
                      pf_reviewedBy := Some (u_id u), pf_reviewNotes := j\<rparr>) (completionProofs s)" and
    as: "assignments s' = updateWhere (\<lambda>x. as_id x = pf_assignmentId p)
              (\<lambda>a. a\<lparr>as_status := ''COMPLETED'', as_completedAt := Some now\<rparr>) (assignments s)" and
    rs: "reports s' = updateWhere (\<lambda>x. rp_id x = as_reportId a)
              (\<lambda>x. x\<lparr>rp_status := ''COMPLETED'', rp_completedAt := Some now, rp_updatedAt := now\<rparr>)
              (reports s)"
    by blast
  have p': "findProof i s' =
           Some (p\<lparr>pf_status := ''APPROVED'', pf_reviewedAt := Some now,
                   pf_reviewedBy := Some (u_id u), pf_reviewNotes := j\<rparr>)"
    using p findProof_id [OF p]
    by (simp add: findProof_def ps find_updateWhere [where key = pf_id])
  have a': "findAssignment (pf_assignmentId p) s' =
           Some (a\<lparr>as_status := ''COMPLETED'', as_completedAt := Some now\<rparr>)"
    using a findAssignment_id [OF a]
    by (simp add: findAssignment_def as find_updateWhere [where key = as_id])
  have r': "findReport (as_reportId a) s' =
           Some (r\<lparr>rp_status := ''COMPLETED'', rp_completedAt := Some now, rp_updatedAt := now\<rparr>)"
    using r findReport_id [OF r]
    by (simp add: findReport_def rs find_updateWhere [where key = rp_id])
  from p a r p' a' r' show "\<exists>p a r.
         findProof i s = Some p \<and> findAssignment (pf_assignmentId p) s = Some a \<and>
         findReport (as_reportId a) s = Some r \<and>
         findProof i s' =
           Some (p\<lparr>pf_status := ''APPROVED'', pf_reviewedAt := Some now,
                   pf_reviewedBy := Some (u_id u), pf_reviewNotes := j\<rparr>) \<and>
         findAssignment (pf_assignmentId p) s' =
           Some (a\<lparr>as_status := ''COMPLETED'', as_completedAt := Some now\<rparr>) \<and>
         findReport (as_reportId a) s' =
           Some (r\<lparr>rp_status := ''COMPLETED'', rp_completedAt := Some now,
                   rp_updatedAt := now\<rparr>)"
    by blast
next
  assume h: "patchProofApprove u now i False j s = (200, s')"
  from patchProofApprove_rejected [OF h] obtain p where
    p: "findProof i s = Some p" and
    ps: "completionProofs s' = updateWhere (\<lambda>x. pf_id x = i)
              (\<lambda>x. x\<lparr>pf_status := ''REJECTED'', pf_reviewedAt := Some now,
                      pf_reviewedBy := Some (u_id u), pf_reviewNotes := j\<rparr>) (completionProofs s)"
    by blast
  have "findProof i s' =
           Some (p\<lparr>pf_status := ''REJECTED'', pf_reviewedAt := Some now,
                   pf_reviewedBy := Some (u_id u), pf_reviewNotes := j\<rparr>)"
    using p findProof_id [OF p]
    by (simp add: findProof_def ps find_updateWhere [where key = pf_id])
  with p show "\<exists>p. findProof i s = Some p \<and>
         findProof i s' =
           Some (p\<lparr>pf_status := ''REJECTED'', pf_reviewedAt := Some now,
                   pf_reviewedBy := Some (u_id u), pf_reviewNotes := j\<rparr>)"
    by blast
next
  assume h: "patchProofApprove u now i False j s = (200, s')"
  from patchProofApprove_rejected [OF h] show "reports s' = reports s" by blast
next
  assume h: "patchProofApprove u now i False j s = (200, s')"
  from patchProofApprove_rejected [OF h] show "assignments s' = assignments s" by blast
next
  assume "findProof i s = Some p \<and> findAssignment (pf_assignmentId p) s = Some a \<and>
    findReport (as_reportId a) s = Some r \<and> findContractor (as_contractorId a) s = Some c \<and>
    \<not> justificationRejected j"
  then show "fst (patchProofApprove u now i ok j s) = 200"
    by (auto intro: patchProofApprove_succeeds)
qed

theorem proof_review_completes_or_only_rejects_witness:
  "patchProofApprove adminUser 1000 200 True (Some ''work verified on site'') exampleStore =
     (200, snd (patchProofApprove adminUser 1000 200 True (Some ''work verified on site'')
        exampleStore)) \<and>
   (\<exists>p a r.
      findProof 200 exampleStore = Some p \<and>
      findAssignment (pf_assignmentId p) exampleStore = Some a \<and>
      findReport (as_reportId a) exampleStore = Some r \<and>
      findProof 200 (snd (patchProofApprove adminUser 1000 200 True
          (Some ''work verified on site'') exampleStore)) =
        Some (p\<lparr>pf_status := ''APPROVED'', pf_reviewedAt := Some 1000,
                pf_reviewedBy := Some (u_id adminUser),
                pf_reviewNotes := Some ''work verified on site''\<rparr>) \<and>
      findAssignment (pf_assignmentId p) (snd (patchProofApprove adminUser 1000 200 True
          (Some ''work verified on site'') exampleStore)) =
        Some (a\<lparr>as_status := ''COMPLETED'', as_completedAt := Some 1000\<rparr>) \<and>
      findReport (as_reportId a) (snd (patchProofApprove adminUser 1000 200 True
          (Some ''work verified on site'') exampleStore)) =
        Some (r\<lparr>rp_status := ''COMPLETED'', rp_completedAt := Some 1000,
                rp_updatedAt := 1000\<rparr>)) \<and>
   patchProofApprove adminUser 1000 200 False (Some ''photos do not show the site'') exampleStore =
     (200, snd (patchProofApprove adminUser 1000 200 False (Some ''photos do not show the site'')
        exampleStore)) \<and>
   reports (snd (patchProofApprove adminUser 1000 200 False (Some ''photos do not show the site'')
      exampleStore)) = reports exampleStore \<and>
   assignments (snd (patchProofApprove adminUser 1000 200 False
      (Some ''photos do not show the site'') exampleStore)) = assignments exampleStore"
proof -
  have just: "\<not> justificationRejected (Some ''work verified on site'')" by code_simp
  have p: "findProof 200 exampleStore = Some pendingProof"
    by (simp add: findProof_def exampleStore_def pendingProof_def)
  have a: "findAssignment (pf_assignmentId pendingProof) exampleStore = Some assignmentInProgress"
    by (simp add: findAssignment_def exampleStore_def pendingProof_def assignmentInProgress_def)
  have r: "findReport (as_reportId assignmentInProgress) exampleStore = Some (mkReport 2 5 0 50)"
    by (simp add: findReport_def exampleStore_def assignmentInProgress_def mkReport_def)
  have c: "findContractor (as_contractorId assignmentInProgress) exampleStore = Some (mkContractor 7)"
    by (simp add: findContractor_def exampleStore_def assignmentInProgress_def mkContractor_def)
  note inst = proof_review_completes_or_only_rejects
    [of adminUser 1000 200 "Some ''work verified on site'' " exampleStore
       "snd (patchProofApprove adminUser 1000 200 True (Some ''work verified on site'')
          exampleStore)" pendingProof assignmentInProgress "mkReport 2 5 0 50" "mkContractor 7"
       True]
  from inst p a r c just
  have ok: "fst (patchProofApprove adminUser 1000 200 True (Some ''work verified on site'')
     exampleStore) = 200"
    by blast
  then have run: "patchProofApprove adminUser 1000 200 True (Some ''work verified on site'')
     exampleStore =
     (200, snd (patchProofApprove adminUser 1000 200 True (Some ''work verified on site'')
        exampleStore))"
    by (metis prod.collapse)
  have just': "\<not> justificationRejected (Some ''photos do not show the site'')" by code_simp
  note inst' = proof_review_completes_or_only_rejects
    [of adminUser 1000 200 "Some ''photos do not show the site'' " exampleStore
       "snd (patchProofApprove adminUser 1000 200 False (Some ''photos do not show the site'')
          exampleStore)" pendingProof assignmentInProgress "mkReport 2 5 0 50" "mkContractor 7"
       False]
  from inst' p a r c just'
  have "fst (patchProofApprove adminUser 1000 200 False (Some ''photos do not show the site'')
     exampleStore) = 200"
    by blast
  then have run': "patchProofApprove adminUser 1000 200 False
     (Some ''photos do not show the site'') exampleStore =
     (200, snd (patchProofApprove adminUser 1000 200 False (Some ''photos do not show the site'')
        exampleStore))"
    by (metis prod.collapse)
  from inst run have approve: "\<exists>p a r.
      findProof 200 exampleStore = Some p \<and>
      findAssignment (pf_assignmentId p) exampleStore = Some a \<and>
      findReport (as_reportId a) exampleStore = Some r \<and>
      findProof 200 (snd (patchProofApprove adminUser 1000 200 True
          (Some ''work verified on site'') exampleStore)) =
        Some (p\<lparr>pf_status := ''APPROVED'', pf_reviewedAt := Some 1000,
                pf_reviewedBy := Some (u_id adminUser),
                pf_reviewNotes := Some ''work verified on site''\<rparr>) \<and>
      findAssignment (pf_assignmentId p) (snd (patchProofApprove adminUser 1000 200 True
          (Some ''work verified on site'') exampleStore)) =
        Some (a\<lparr>as_status := ''COMPLETED'', as_completedAt := Some 1000\<rparr>) \<and>
      findReport (as_reportId a) (snd (patchProofApprove adminUser 1000 200 True
          (Some ''work verified on site'') exampleStore)) =
        Some (r\<lparr>rp_status := ''COMPLETED'', rp_completedAt := Some 1000,
                rp_updatedAt := 1000\<rparr>)"
    by blast
  from inst' run' have reject:
    "reports (snd (patchProofApprove adminUser 1000 200 False
        (Some ''photos do not show the site'') exampleStore)) = reports exampleStore \<and>
     assignments (snd (patchProofApprove adminUser 1000 200 False
        (Some ''photos do not show the site'') exampleStore)) = assignments exampleStore"
    by blast
  from run approve run' reject show ?thesis by (intro conjI) blast+
qed

section \<open>The stamps of closing and completion\<close>

lemma patchStatus_found:
  assumes "findReport i s = Some r" "includesStr validStatuses (Some st)"
    "\<not> justificationRejected j"
  shows "fst (patchStatus u now i (Some st) j s) = 200"
    and "findReport i (snd (patchStatus u now i (Some st) j s)) =
           Some (r\<lparr>rp_status := st, rp_updatedAt := now,
                   rp_closedAt := (if st = ''CLOSED'' then Some now else rp_closedAt r)\<rparr>)"
  using assms findReport_id [OF assms(1)]
  by (simp_all add: patchStatus_def updateReport_found findReport_updateWhere)

lemma patchProofApprove_reports:
  "reports (snd (patchProofApprove u now i b j s)) = reports s \<or>
   (\<exists>pr a. b \<and> findProof i s = Some pr \<and> findAssignment (pf_assignmentId pr) s = Some a \<and>
      reports (snd (patchProofApprove u now i b j s)) =
        updateWhere (\<lambda>r. rp_id r = as_reportId a)
          (\<lambda>x. x\<lparr>rp_status := ''COMPLETED'', rp_completedAt := Some now, rp_updatedAt := now\<rparr>)
          (reports s))"
  by (auto simp: patchProofApprove_def Let_def
        dest!: updateReport_Some updateAssignment_Some dest: findReport_id
        split: option.splits sum.splits if_splits)

lemma patchProofApprove_stamps:
  assumes "findProof i s = Some p" "findAssignment (pf_assignmentId p) s = Some a"
    "findReport (as_reportId a) s = Some r" "findContractor (as_contractorId a) s = Some c"
    "\<not> justificationRejected j"
  shows "findReport (as_reportId a) (snd (patchProofApprove u now i True j s)) =
           Some (r\<lparr>rp_status := ''COMPLETED'', rp_completedAt := Some now, rp_updatedAt := now\<rparr>)"
proof -
  have ok: "fst (patchProofApprove u now i True j s) = 200"
    by (rule patchProofApprove_succeeds [OF assms])
  then have run: "patchProofApprove u now i True j s =
      (200, snd (patchProofApprove u now i True j s))"
    by (metis prod.collapse)
  from patchProofApprove_approved [OF run] assms(1,2)
  have "reports (snd (patchProofApprove u now i True j s)) =
      updateWhere (\<lambda>x. rp_id x = as_reportId a)
        (\<lambda>x. x\<lparr>rp_status := ''COMPLETED'', rp_completedAt := Some now, rp_updatedAt := now\<rparr>)
        (reports s)"
    by auto
  then show ?thesis
    using assms(3) findReport_id [OF assms(3)]
    by (simp add: findReport_def find_updateWhere [where key = rp_id])
qed

text \<open>
  C6, as claimed, fails: the status route writes \<^verbatim>\<open>closedAt\<close> on every change to \<open>CLOSED\<close>,
  and the review route writes \<^verbatim>\<open>completedAt\<close> on every approval. On the example store,
  closing report 1 at instant 1000 and again at instant 2000 leaves \<^verbatim>\<open>closedAt\<close> at 2000;
  approving proof 200 at instant 1000 and again at instant 2000 leaves \<^verbatim>\<open>completedAt\<close> of
  report 2 at 2000; and the status route sets report 1 to \<open>COMPLETED\<close> without a
  \<^verbatim>\<open>completedAt\<close>.
\<close>

theorem closedAt_overwritten_by_second_close:
  "map_option rp_closedAt
     (findReport 1 (snd (patchStatus adminUser 1000 1 (Some ''CLOSED'')
        (Some ''resolved by the ward office'') exampleStore))) = Some (Some 1000) \<and>
   map_option rp_closedAt
     (findReport 1 (snd (patchStatus adminUser 2000 1 (Some ''CLOSED'')
        (Some ''closing the report again'')
        (snd (patchStatus adminUser 1000 1 (Some ''CLOSED'')
           (Some ''resolved by the ward office'') exampleStore))))) = Some (Some 2000) \<and>
   map_option rp_completedAt
     (findReport 2 (snd (patchProofApprove adminUser 1000 200 True
        (Some ''work verified on site'') exampleStore))) = Some (Some 1000) \<and>
   map_option rp_completedAt
     (findReport 2 (snd (patchProofApprove adminUser 2000 200 True
        (Some ''approving the proof again'')
        (snd (patchProofApprove adminUser 1000 200 True
           (Some ''work verified on site'') exampleStore))))) = Some (Some 2000) \<and>
   map_option (\<lambda>r. (rp_status r, rp_completedAt r))
     (findReport 1 (snd (patchStatus adminUser 1000 1 (Some ''COMPLETED'')
        (Some ''work finished last week'') exampleStore))) = Some (''COMPLETED'', None)"
  by code_simp

text \<open>
  C6, amended. Whatever the request, every report keeps its \<^verbatim>\<open>closedAt\<close> unless the request
  is a status change of that report to \<open>CLOSED\<close>, which sets it to the current instant, and
  keeps its \<^verbatim>\<open>completedAt\<close> unless the request is the approval of a completion proof whose
  assignment is an assignment of that report, which sets it to the current instant; so
  neither is ever reset to null, and no other request, a status change to \<open>COMPLETED\<close>
  among them, writes \<^verbatim>\<open>completedAt\<close>. Neither is written once only: a status change to
  \<open>CLOSED\<close> of an existing report with an accepted justification answers 200 and sets
  \<^verbatim>\<open>closedAt\<close> to the current instant, whatever it was; and the approval of an existing
  proof, with an accepted justification and with its assignment and the report and
  contractor of the assignment in the store, answers 200 and sets \<^verbatim>\<open>completedAt\<close> of the
  report to the current instant, whatever it was.
\<close>

theorem stamps_written_only_by_close_and_approval:
  "list_all2
     (\<lambda>x y. rp_id y = rp_id x \<and>
        (rp_closedAt y = rp_closedAt x \<or>
         (rp_closedAt y = Some now \<and> (\<exists>j. req = PatchStatus (rp_id x) (Some ''CLOSED'') j))) \<and>
        (rp_completedAt y = rp_completedAt x \<or>
         (rp_completedAt y = Some now \<and>
          (\<exists>p j pr a. req = PatchProofApprove p True j \<and> findProof p s = Some pr \<and>
             findAssignment (pf_assignmentId pr) s = Some a \<and> as_reportId a = rp_id x))))
     (reports s) (reports (snd (route uniq u now req s))) \<and>
   (findReport i s = Some r \<and> \<not> justificationRejected j \<longrightarrow>
      fst (patchStatus u now i (Some ''CLOSED'') j s) = 200 \<and>
      map_option rp_closedAt (findReport i (snd (patchStatus u now i (Some ''CLOSED'') j s))) =
        Some (Some now)) \<and>
   (findProof k s = Some p \<and> findAssignment (pf_assignmentId p) s = Some a \<and>
    findReport (as_reportId a) s = Some r' \<and> findContractor (as_contractorId a) s = Some c \<and>
    \<not> justificationRejected j' \<longrightarrow>
      fst (patchProofApprove u now k True j' s) = 200 \<and>
      map_option rp_completedAt
        (findReport (as_reportId a) (snd (patchProofApprove u now k True j' s))) =
        Some (Some now))"
proof -
  let ?R = "\<lambda>x y. rp_id y = rp_id x \<and>
        (rp_closedAt y = rp_closedAt x \<or>
         (rp_closedAt y = Some now \<and> (\<exists>j. req = PatchStatus (rp_id x) (Some ''CLOSED'') j))) \<and>
        (rp_completedAt y = rp_completedAt x \<or>
         (rp_completedAt y = Some now \<and>
          (\<exists>p j pr a. req = PatchProofApprove p True j \<and> findProof p s = Some pr \<and>
             findAssignment (pf_assignmentId pr) s = Some a \<and> as_reportId a = rp_id x)))"
  have "list_all2 ?R (reports s) (reports (snd (handler uniq u now req s)))"
  proof (cases req)
    case (PatchStatus i' st j')
    with patchStatus_reports [of u now i' st j' s] show ?thesis
      by (auto intro!: list_all2_updateWhere simp: list_all2_same split: if_splits)
  next
    case (PatchAssign i' c d dl j')
    with patchAssign_reports [of uniq u now i' c d dl j' s] show ?thesis
      by (auto intro!: list_all2_updateWhere simp: list_all2_same split: if_splits)
  next
    case (PostModerate i' a j' sp se dup sev)
    with postModerate_reports [of u now i' a j' sp se dup sev s] show ?thesis
      by (auto intro!: list_all2_updateWhere simp: list_all2_same updateData_def Let_def split: option.splits if_splits)
  next
    case (PatchModerate i' a j' sp se)
    with patchModerate_reports [of u now i' a j' sp se s] show ?thesis
      by (auto intro!: list_all2_updateWhere simp: list_all2_same split: if_splits)
  next
    case (PatchEscalate i' j')
    with patchEscalate_reports [of u now i' j' s] show ?thesis
      by (auto intro!: list_all2_updateWhere simp: list_all2_same split: if_splits)
  next
    case (PostBidAssign i' b j' dl)
    then show ?thesis by (simp add: postBidAssign_refused list_all2_same)
  next
    case (PatchContractorBlock i' b j')
    then show ?thesis by (simp add: patchContractorBlock_reports list_all2_same)
  next
    case (PatchProofApprove i' b j')
    with patchProofApprove_reports [of u now i' b j' s] show ?thesis
      by (auto intro!: list_all2_updateWhere simp: list_all2_same split: if_splits)
  qed
  then have rows: "list_all2 ?R (reports s) (reports (snd (route uniq u now req s)))"
    by (simp add: route_def list_all2_same)
  have closed: "includesStr validStatuses (Some ''CLOSED'')" by code_simp
  have close: "fst (patchStatus u now i (Some ''CLOSED'') j s) = 200 \<and>
      map_option rp_closedAt (findReport i (snd (patchStatus u now i (Some ''CLOSED'') j s))) =
        Some (Some now)"
    if "findReport i s = Some r" "\<not> justificationRejected j"
    using patchStatus_found [OF that(1) closed that(2), of u now] by simp
  have approve: "fst (patchProofApprove u now k True j' s) = 200 \<and>
      map_option rp_completedAt
        (findReport (as_reportId a) (snd (patchProofApprove u now k True j' s))) =
        Some (Some now)"
    if "findProof k s = Some p" "findAssignment (pf_assignmentId p) s = Some a"
      "findReport (as_reportId a) s = Some r'" "findContractor (as_contractorId a) s = Some c"
      "\<not> justificationRejected j'"
    using patchProofApprove_succeeds [OF that, of u now True]
      patchProofApprove_stamps [OF that, of u now]
    by simp
  from rows close approve show ?thesis by blast
qed

theorem stamps_written_only_by_close_and_approval_witness:
  "findReport 1 exampleStore = Some (mkReport 1 4 3 100) \<and>
   \<not> justificationRejected (Some ''resolved by the ward office'') \<and>
   fst (patchStatus adminUser 1000 1 (Some ''CLOSED'') (Some ''resolved by the ward office'')
     exampleStore) = 200 \<and>
   map_option rp_closedAt
     (findReport 1 (snd (patchStatus adminUser 1000 1 (Some ''CLOSED'')
        (Some ''resolved by the ward office'') exampleStore))) = Some (Some 1000) \<and>
   findProof 200 exampleStore = Some pendingProof \<and>
   findAssignment (pf_assignmentId pendingProof) exampleStore = Some assignmentInProgress \<and>
   fst (patchProofApprove adminUser 1000 200 True (Some ''work verified on site'')
     exampleStore) = 200 \<and>
   map_option rp_completedAt
     (findReport (as_reportId assignmentInProgress)
        (snd (patchProofApprove adminUser 1000 200 True (Some ''work verified on site'')
           exampleStore))) = Some (Some 1000)"
proof -
  have r: "findReport 1 exampleStore = Some (mkReport 1 4 3 100)"
    by (simp add: findReport_def exampleStore_def mkReport_def)
  have just: "\<not> justificationRejected (Some ''resolved by the ward office'')" by code_simp
  have just': "\<not> justificationRejected (Some ''work verified on site'')" by code_simp
  have p: "findProof 200 exampleStore = Some pendingProof"
    by (simp add: findProof_def exampleStore_def pendingProof_def)
  have a: "findAssignment (pf_assignmentId pendingProof) exampleStore = Some assignmentInProgress"
    by (simp add: findAssignment_def exampleStore_def pendingProof_def assignmentInProgress_def)
  have r': "findReport (as_reportId assignmentInProgress) exampleStore = Some (mkReport 2 5 0 50)"
    by (simp add: findReport_def exampleStore_def assignmentInProgress_def mkReport_def)
  have c: "findContractor (as_contractorId assignmentInProgress) exampleStore =
             Some (mkContractor 7)"
    by (simp add: findContractor_def exampleStore_def assignmentInProgress_def mkContractor_def)
  from stamps_written_only_by_close_and_approval
         [of 1000 "PatchStatus 1 (Some ''CLOSED'') (Some ''resolved by the ward office'')"
            exampleStore True adminUser 1 "mkReport 1 4 3 100"
            "Some ''resolved by the ward office''" 200 pendingProof assignmentInProgress
            "mkReport 2 5 0 50" "mkContractor 7" "Some ''work verified on site''"]
       r just just' p a r' c
  show ?thesis by blast
qed

section \<open>Accepting a bid\<close>

text \<open>
  C2. The acceptance of a bid never completes: once the justification is accepted, the
  query that reads the bid is refused by the client, the route answers 500, and none of
  the writes that follow in the source is reached. On the example store bid 10 is a pending
  bid of report 1; accepting it with an accepted justification answers 500 and leaves the
  store as it was, with bid 10 still pending, no assignment of report 1 and report 1 still
  \<open>OPEN\<close>.
\<close>

theorem accept_bid_refused_before_any_write:
  "postBidAssign uniq u now i k j deadline s =
     (if justificationRejected j then (400, s) else (500, s)) \<and>
   \<not> justificationRejected (Some ''lowest credible bid'') \<and>
   map_option (\<lambda>b. (bd_reportId b, bd_status b)) (findBid 10 exampleStore) =
     Some (1, ''PENDING'') \<and>
   postBidAssign True adminUser 1000 1 10 (Some ''lowest credible bid'') None exampleStore =
     (500, exampleStore) \<and>
   map_option bd_status
     (findBid 10 (snd (postBidAssign True adminUser 1000 1 10 (Some ''lowest credible bid'') None
        exampleStore))) = Some ''PENDING'' \<and>
   activeFor 1
     (snd (postBidAssign True adminUser 1000 1 10 (Some ''lowest credible bid'') None
        exampleStore)) = [] \<and>
   map_option rp_status
     (findReport 1 (snd (postBidAssign True adminUser 1000 1 10 (Some ''lowest credible bid'')
        None exampleStore))) = Some ''OPEN''"
proof -
  have refused: "postBidAssign uniq u now i k j deadline s =
     (if justificationRejected j then (400, s) else (500, s))"
    by (rule postBidAssign_refused)
  have just: "\<not> justificationRejected (Some ''lowest credible bid'')" by code_simp
  have run: "postBidAssign True adminUser 1000 1 10 (Some ''lowest credible bid'') None
     exampleStore = (500, exampleStore)"
    using just by (simp add: postBidAssign_refused)
  have bid: "map_option (\<lambda>b. (bd_reportId b, bd_status b)) (findBid 10 exampleStore) =
     Some (1, ''PENDING'')"
    by (simp add: findBid_def exampleStore_def mkBid_def)
  have bid': "map_option bd_status (findBid 10 exampleStore) = Some ''PENDING''"
    by (simp add: findBid_def exampleStore_def mkBid_def)
  have none: "activeFor 1 exampleStore = []" by code_simp
  have rep: "map_option rp_status (findReport 1 exampleStore) = Some ''OPEN''"
    by (simp add: findReport_def exampleStore_def mkReport_def)
  from refused just bid run bid' none rep show ?thesis by simp
qed

section \<open>Active assignments of a report\<close>

lemma oneActivePerReport_iff: "oneActivePerReport s \<longleftrightarrow> (\<forall>i. length (activeFor i s) \<le> 1)"
proof
  assume inv: "oneActivePerReport s"
  show "\<forall>i. length (activeFor i s) \<le> 1"
  proof
    fix i
    show "length (activeFor i s) \<le> 1"
    proof (cases "\<exists>a \<in> set (assignments s). as_reportId a = i")
      case True
      with inv show ?thesis by (auto simp: oneActivePerReport_def list_all_iff)
    next
      case False
      then have "activeFor i s = []" by (auto simp: activeFor_def filter_empty_conv)
      then show ?thesis by simp
    qed
  qed
next
  assume "\<forall>i. length (activeFor i s) \<le> 1"
  then show "oneActivePerReport s" by (simp add: oneActivePerReport_def list_all_iff)
qed

lemma activeFor_deactivated:
  assumes "\<And>a. as_reportId (f a) = as_reportId a" "\<And>a. \<not> activeAssignment (f a)"
  shows "length (filter (\<lambda>a. as_reportId a = i \<and> activeAssignment a) (updateWhere p f xs))
           \<le> length (filter (\<lambda>a. as_reportId a = i \<and> activeAssignment a) xs)"
  by (induction xs) (auto simp: updateWhere_def assms)

lemma activeFor_none_of_report:
  "\<not> list_ex (\<lambda>x. as_reportId x = i) (assignments s) \<Longrightarrow> activeFor i s = []"
  by (auto simp: activeFor_def filter_empty_conv list_ex_iff)

text \<open>
  What each handler leaves in the table of assignments: the table as it was, the table
  with one assignment added, which on a store that keeps one row per report is the first
  row of its report, or the table with some rows cancelled or completed.
\<close>

lemma handler_assignments:
  "assignments (snd (handler uniq u now req s)) = assignments s \<or>
   (\<exists>a. assignments (snd (handler uniq u now req s)) = assignments s @ [a] \<and>
      (uniq \<longrightarrow> \<not> list_ex (\<lambda>x. as_reportId x = as_reportId a) (assignments s))) \<or>
   (\<exists>p f. (\<forall>a. as_reportId (f a) = as_reportId a \<and> \<not> activeAssignment (f a)) \<and>
      assignments (snd (handler uniq u now req s)) = updateWhere p f (assignments s))"
proof (cases req)
  case (PatchStatus i st j)
  then show ?thesis
    by (auto simp: patchStatus_def createAdminLog_def createHistory_def
          dest!: updateReport_Some split: option.splits)
next
  case (PatchAssign i c d dl j)
  then show ?thesis
    apply (cases c)
     apply (auto simp: patchAssign_def createAdminLog_def createHistory_def
          dest!: updateReport_Some split: option.splits)[1]
    apply (auto simp: patchAssign_def createAdminLog_def createHistory_def createAssignment_def
          dest!: updateReport_Some split: option.splits if_splits)
    done
next
  case (PostModerate i a j sp se dup sev)
  then show ?thesis
    by (auto simp: postModerate_def createAdminLog_def createHistory_def
          createModeratorAction_def dest!: updateReport_Some split: option.splits)
next
  case (PatchModerate i a j sp se)
  then show ?thesis
    by (auto simp: patchModerate_def createHistory_def createModeratorAction_def
          dest!: updateReport_Some split: option.splits)
next
  case (PatchEscalate i j)
  then show ?thesis
    by (auto simp: patchEscalate_def createHistory_def dest!: updateReport_Some
          split: option.splits)
next
  case (PostBidAssign i b j dl)
  then show ?thesis by (simp add: postBidAssign_refused)
next
  case (PatchContractorBlock i b j)
  have "\<exists>p f. (\<forall>a. as_reportId (f a) = as_reportId a \<and> \<not> activeAssignment (f a)) \<and>
      updateWhere q (\<lambda>a. a\<lparr>as_status := ''CANCELLED'', as_cancelledAt := Some now,
         as_cancelReason := Some ''Contractor blocked by admin''\<rparr>) xs = updateWhere p f xs"
    for q xs
    by (rule exI [of _ q], rule exI [of _ "\<lambda>a. a\<lparr>as_status := ''CANCELLED'',
         as_cancelledAt := Some now, as_cancelReason := Some ''Contractor blocked by admin''\<rparr>"])
       (simp add: activeAssignment_def)
  with PatchContractorBlock show ?thesis
    by (auto simp: patchContractorBlock_def Let_def createAdminLog_def split: option.splits)
next
  case (PatchProofApprove i b j)
  have ex: "\<exists>p f. (\<forall>a. as_reportId (f a) = as_reportId a \<and> \<not> activeAssignment (f a)) \<and>
      updateWhere q (\<lambda>a. a\<lparr>as_status := ''COMPLETED'', as_completedAt := Some now\<rparr>) xs =
        updateWhere p f xs"
    for q xs
    by (rule exI [of _ q], rule exI [of _ "\<lambda>a. a\<lparr>as_status := ''COMPLETED'',
         as_completedAt := Some now\<rparr>"]) (simp add: activeAssignment_def)
  from PatchProofApprove show ?thesis
    apply (simp add: patchProofApprove_def Let_def split: option.splits if_splits sum.splits)
    apply (auto simp: createAdminLog_def createHistory_def ex
          dest!: updateReport_Some updateAssignment_Some split: option.splits)
    done
qed

lemma handler_keeps_one_active:
  assumes "oneActivePerReport s"
  shows "oneActivePerReport (snd (handler True u now req s))"
proof -
  from assms have inv: "\<And>i. length (activeFor i s) \<le> 1" by (simp add: oneActivePerReport_iff)
  let ?s' = "snd (handler True u now req s)"
  have "length (activeFor i ?s') \<le> 1" for i
    using handler_assignments [of True u now req s]
  proof (elim disjE exE conjE)
    assume "assignments ?s' = assignments s"
    then have "activeFor i ?s' = activeFor i s" by (simp add: activeFor_def)
    with inv [of i] show ?thesis by simp
  next
    fix a
    assume app: "assignments ?s' = assignments s @ [a]"
      and un: "True \<longrightarrow> \<not> list_ex (\<lambda>x. as_reportId x = as_reportId a) (assignments s)"
    from un have none: "activeFor (as_reportId a) s = []"
      by (auto dest: activeFor_none_of_report)
    have "activeFor i ?s' =
        activeFor i s @ (if as_reportId a = i \<and> activeAssignment a then [a] else [])"
      by (simp add: activeFor_def app)
    with none inv [of i] show ?thesis by (cases "i = as_reportId a") auto
  next
    fix p f
    assume f: "\<forall>a. as_reportId (f a) = as_reportId a \<and> \<not> activeAssignment (f a)"
      and upd: "assignments ?s' = updateWhere p f (assignments s)"
    have "length (activeFor i ?s') \<le> length (activeFor i s)"
      unfolding activeFor_def upd using f by (intro activeFor_deactivated) simp_all
    with inv [of i] show ?thesis by simp
  qed
  then show ?thesis by (simp add: oneActivePerReport_iff)
qed

text \<open>
  C3. On the store that keeps one assignment row per report, every request leaves at most
  one active assignment per report when there was at most one before, and so do the two
  admissions, the direct assignment and the acceptance of a bid, whatever report they are
  made on. On the example store report 2 has an assignment in progress: the direct
  assignment of report 2 to contractor 8 and the acceptance of bid 12 on report 2 leave that
  assignment as the only active one of report 2, and the direct assignment of report 3,
  which has none, leaves report 3 with one.
\<close>

theorem one_active_assignment_kept:
  "oneActivePerReport s \<Longrightarrow>
     oneActivePerReport (snd (route True u now req s)) \<and>
     oneActivePerReport
       (snd (patchAssign True u now i contractorId departmentId deadline j s)) \<and>
     oneActivePerReport (snd (postBidAssign True u now i k j deadline s))"
proof -
  assume inv: "oneActivePerReport s"
  have a: "oneActivePerReport (snd (route True u now req s))"
    using handler_keeps_one_active [OF inv, of u now req] inv by (simp add: route_def)
  have b: "oneActivePerReport
       (snd (patchAssign True u now i contractorId departmentId deadline j s))"
    using handler_keeps_one_active
      [OF inv, of u now "PatchAssign i contractorId departmentId deadline j"]
    by simp
  have c: "oneActivePerReport (snd (postBidAssign True u now i k j deadline s))"
    using handler_keeps_one_active [OF inv, of u now "PostBidAssign i k j deadline"]
    by simp
  from a b c show ?thesis by (intro conjI)
qed

theorem one_active_assignment_kept_witness:
  "oneActivePerReport exampleStore \<and>
   map as_id (activeFor 2 exampleStore) = [100] \<and>
   oneActivePerReport
     (snd (patchAssign True adminUser 1000 2 (Some 8) None None
        (Some ''nearest available crew'') exampleStore)) \<and>
   map as_id (activeFor 2
     (snd (patchAssign True adminUser 1000 2 (Some 8) None None
        (Some ''nearest available crew'') exampleStore))) = [100] \<and>
   oneActivePerReport
     (snd (postBidAssign True adminUser 1000 2 12 (Some ''nearest available crew'') None
        exampleStore)) \<and>
   map as_id (activeFor 2
     (snd (postBidAssign True adminUser 1000 2 12 (Some ''nearest available crew'') None
        exampleStore))) = [100] \<and>
   oneActivePerReport
     (snd (route True adminUser 1000
        (PatchAssign 3 (Some 8) None None (Some ''nearest available crew'')) exampleStore)) \<and>
   map as_status (activeFor 3
     (snd (route True adminUser 1000
        (PatchAssign 3 (Some 8) None None (Some ''nearest available crew'')) exampleStore))) =
     [''ASSIGNED'']"
proof -
  have inv: "oneActivePerReport exampleStore" by code_simp
  have before: "map as_id (activeFor 2 exampleStore) = [100]" by code_simp
  note kept = one_active_assignment_kept [OF inv, of adminUser 1000 _ 2 "Some 8" None None
      "Some ''nearest available crew''" 12]
  have direct: "map as_id (activeFor 2
     (snd (patchAssign True adminUser 1000 2 (Some 8) None None
        (Some ''nearest available crew'') exampleStore))) = [100]"
    by code_simp
  have bid: "map as_id (activeFor 2
     (snd (postBidAssign True adminUser 1000 2 12 (Some ''nearest available crew'') None
        exampleStore))) = [100]"
    by code_simp
  have fresh: "map as_status (activeFor 3
     (snd (route True adminUser 1000
        (PatchAssign 3 (Some 8) None None (Some ''nearest available crew'')) exampleStore))) =
     [''ASSIGNED'']"
    by code_simp
  from inv before kept direct bid fresh show ?thesis by blast
qed

end
